theory Spec2Isabelle
  imports Main "HOL-Library.Word" "HOL-Library.AList"
begin

section \<open>JavaScript strings and JSON text\<close>

text \<open>
  A JavaScript string is a sequence of 16-bit code units. \<open>js\<close> turns an ASCII literal
  of the source into such a sequence. The drivers of \<^verbatim>\<open>llm.service.ts\<close> call
  \<^verbatim>\<open>JSON.stringify\<close> on objects of the shape \<^verbatim>\<open>{error: message}\<close> and
  \<^verbatim>\<open>JSON.parse\<close> on the argument text of a tool call; both are modelled here after
  ECMA-262 (QuoteJSONString, and the JSON grammar of ECMA-404). A parsed number keeps its
  literal text (its conversion to a double is not modelled); a parsed object keeps its
  members in the order of the text, a repeated key keeping its first position and its last
  value, as property creation does.
\<close>

type_synonym code_unit = "16 word"
type_synonym jstring = "code_unit list"

definition js :: "string \<Rightarrow> jstring" where
  "js s = map of_char s"

datatype json =
    JNull
  | JBool bool
  | JNum jstring
  | JStr jstring
  | JArr "json list"
  | JObj "(jstring \<times> json) list"

definition hex_digit :: "nat \<Rightarrow> code_unit" where
  "hex_digit d = (if d < 10 then of_nat (48 + d) else of_nat (87 + d))"

definition hex_value :: "code_unit \<Rightarrow> nat option" where
  "hex_value c =
     (let n = unat c in
      if 48 \<le> n \<and> n \<le> 57 then Some (n - 48)
      else if 97 \<le> n \<and> n \<le> 102 then Some (n - 87)
      else if 65 \<le> n \<and> n \<le> 70 then Some (n - 55)
      else None)"

definition unicode_escape :: "code_unit \<Rightarrow> jstring" where
  "unicode_escape c =
     (let n = unat c in
      [0x5C, 0x75, hex_digit (n div 4096), hex_digit (n div 256 mod 16),
       hex_digit (n div 16 mod 16), hex_digit (n mod 16)])"

definition is_high_surrogate :: "code_unit \<Rightarrow> bool" where
  "is_high_surrogate c = (0xD800 \<le> c \<and> c \<le> 0xDBFF)"

definition is_low_surrogate :: "code_unit \<Rightarrow> bool" where
  "is_low_surrogate c = (0xDC00 \<le> c \<and> c \<le> 0xDFFF)"

definition quote_unit :: "code_unit \<Rightarrow> jstring" where
  "quote_unit c =
     (if c = 0x08 then [0x5C, 0x62]
      else if c = 0x09 then [0x5C, 0x74]
      else if c = 0x0A then [0x5C, 0x6E]
      else if c = 0x0C then [0x5C, 0x66]
      else if c = 0x0D then [0x5C, 0x72]
      else if c = 0x22 then [0x5C, 0x22]
      else if c = 0x5C then [0x5C, 0x5C]
      else if c < 0x20 \<or> is_high_surrogate c \<or> is_low_surrogate c then unicode_escape c
      else [c])"

fun quote_body :: "jstring \<Rightarrow> jstring" where
  "quote_body [] = []"
| "quote_body [c] = quote_unit c"
| "quote_body (c # d # cs) =
     (if is_high_surrogate c \<and> is_low_surrogate d then c # d # quote_body cs
      else quote_unit c @ quote_body (d # cs))"

definition json_quote :: "jstring \<Rightarrow> jstring" where
  "json_quote s = 0x22 # quote_body s @ [0x22]"

definition stringify_error :: "jstring \<Rightarrow> jstring" where
  "stringify_error msg = js ''{'' @ json_quote (js ''error'') @ js '':'' @ json_quote msg @ js ''}''"

datatype token =
    TLBrace | TRBrace | TLBracket | TRBracket | TColon | TComma
  | TTrue | TFalse | TNull
  | TString jstring
  | TNumber jstring

definition unescape :: "code_unit \<Rightarrow> code_unit option" where
  "unescape e =
     (if e = 0x22 then Some 0x22
      else if e = 0x5C then Some 0x5C
      else if e = 0x2F then Some 0x2F
      else if e = 0x62 then Some 0x08
      else if e = 0x66 then Some 0x0C
      else if e = 0x6E then Some 0x0A
      else if e = 0x72 then Some 0x0D
      else if e = 0x74 then Some 0x09
      else None)"

definition hex4 :: "code_unit \<Rightarrow> code_unit \<Rightarrow> code_unit \<Rightarrow> code_unit \<Rightarrow> code_unit option" where
  "hex4 h1 h2 h3 h4 =
     (case (hex_value h1, hex_value h2, hex_value h3, hex_value h4) of
        (Some a, Some b, Some c, Some d) \<Rightarrow> Some (of_nat (((a * 16 + b) * 16 + c) * 16 + d))
      | _ \<Rightarrow> None)"

fun lex_string :: "jstring \<Rightarrow> jstring \<Rightarrow> (jstring \<times> jstring) option" where
  "lex_string acc [] = None"
| "lex_string acc (c # cs) =
     (if c = 0x22 then Some (acc, cs)
      else if c = 0x5C then
        (case cs of
           [] \<Rightarrow> None
         | e # es \<Rightarrow>
             if e = 0x75 then
               (case es of
                  h1 # h2 # h3 # h4 # rest \<Rightarrow>
                    (case hex4 h1 h2 h3 h4 of
                       None \<Rightarrow> None
                     | Some u \<Rightarrow> lex_string (acc @ [u]) rest)
                | _ \<Rightarrow> None)
             else
               (case unescape e of
                  None \<Rightarrow> None
                | Some u \<Rightarrow> lex_string (acc @ [u]) es))
      else if c < 0x20 then None
      else lex_string (acc @ [c]) cs)"

definition is_digit :: "code_unit \<Rightarrow> bool" where
  "is_digit c = (0x30 \<le> c \<and> c \<le> 0x39)"

definition lex_digits :: "jstring \<Rightarrow> (jstring \<times> jstring) option" where
  "lex_digits s =
     (if takeWhile is_digit s = [] then None
      else Some (takeWhile is_digit s, dropWhile is_digit s))"

definition lex_int :: "jstring \<Rightarrow> (jstring \<times> jstring) option" where
  "lex_int s =
     (case s of
        [] \<Rightarrow> None
      | c # cs \<Rightarrow>
          if c = 0x30 then Some ([c], cs)
          else if is_digit c then Some (c # takeWhile is_digit cs, dropWhile is_digit cs)
          else None)"

definition lex_frac :: "jstring \<Rightarrow> (jstring \<times> jstring) option" where
  "lex_frac s =
     (case s of
        c # cs \<Rightarrow>
          if c = 0x2E then
            (case lex_digits cs of None \<Rightarrow> None | Some (ds, r) \<Rightarrow> Some (c # ds, r))
          else Some ([], s)
      | [] \<Rightarrow> Some ([], s))"

definition lex_exp :: "jstring \<Rightarrow> (jstring \<times> jstring) option" where
  "lex_exp s =
     (case s of
        c # cs \<Rightarrow>
          if c = 0x65 \<or> c = 0x45 then
            (case cs of
               d # ds \<Rightarrow>
                 if d = 0x2B \<or> d = 0x2D then
                   (case lex_digits ds of None \<Rightarrow> None | Some (xs, r) \<Rightarrow> Some (c # d # xs, r))
                 else
                   (case lex_digits cs of None \<Rightarrow> None | Some (xs, r) \<Rightarrow> Some (c # xs, r))
             | [] \<Rightarrow> None)
          else Some ([], s)
      | [] \<Rightarrow> Some ([], s))"

definition lex_number :: "jstring \<Rightarrow> (jstring \<times> jstring) option" where
  "lex_number s =
     (let (sign, s1) = (case s of c # cs \<Rightarrow> if c = 0x2D then ([c], cs) else ([], s) | [] \<Rightarrow> ([], s)) in
      case lex_int s1 of
        None \<Rightarrow> None
      | Some (i, s2) \<Rightarrow>
          (case lex_frac s2 of
             None \<Rightarrow> None
           | Some (f, s3) \<Rightarrow>
               (case lex_exp s3 of
                  None \<Rightarrow> None
                | Some (e, s4) \<Rightarrow> Some (sign @ i @ f @ e, s4))))"

definition is_json_space :: "code_unit \<Rightarrow> bool" where
  "is_json_space c = (c = 0x20 \<or> c = 0x09 \<or> c = 0x0A \<or> c = 0x0D)"

fun lex :: "jstring \<Rightarrow> token list option" where
  "lex [] = Some []"
| "lex (c # cs) =
     (if is_json_space c then lex cs
      else if c = 0x7B then map_option ((#) TLBrace) (lex cs)
      else if c = 0x7D then map_option ((#) TRBrace) (lex cs)
      else if c = 0x5B then map_option ((#) TLBracket) (lex cs)
      else if c = 0x5D then map_option ((#) TRBracket) (lex cs)
      else if c = 0x3A then map_option ((#) TColon) (lex cs)
      else if c = 0x2C then map_option ((#) TComma) (lex cs)
      else if take 4 (c # cs) = js ''true'' then map_option ((#) TTrue) (lex (drop 3 cs))
      else if take 5 (c # cs) = js ''false'' then map_option ((#) TFalse) (lex (drop 4 cs))
      else if take 4 (c # cs) = js ''null'' then map_option ((#) TNull) (lex (drop 3 cs))
      else if c = 0x22 then
        (case lex_string [] cs of
           None \<Rightarrow> None
         | Some (s, rest) \<Rightarrow>
             if length rest \<le> length cs then map_option ((#) (TString s)) (lex rest) else None)
      else
        (case lex_number (c # cs) of
           None \<Rightarrow> None
         | Some (n, rest) \<Rightarrow>
             if length rest \<le> length cs then map_option ((#) (TNumber n)) (lex rest) else None))"

function (sequential) parse_value :: "token list \<Rightarrow> (json \<times> token list) option"
  and parse_elements :: "json list \<Rightarrow> token list \<Rightarrow> (json list \<times> token list) option"
  and parse_members ::
    "(jstring \<times> json) list \<Rightarrow> token list \<Rightarrow> ((jstring \<times> json) list \<times> token list) option"
where
  "parse_value [] = None"
| "parse_value (t # ts) =
     (case t of
        TNull \<Rightarrow> Some (JNull, ts)
      | TTrue \<Rightarrow> Some (JBool True, ts)
      | TFalse \<Rightarrow> Some (JBool False, ts)
      | TString s \<Rightarrow> Some (JStr s, ts)
      | TNumber n \<Rightarrow> Some (JNum n, ts)
      | TLBracket \<Rightarrow>
          (case ts of
             TRBracket # r \<Rightarrow> Some (JArr [], r)
           | _ \<Rightarrow> map_option (\<lambda>(vs, r). (JArr vs, r)) (parse_elements [] ts))
      | TLBrace \<Rightarrow>
          (case ts of
             TRBrace # r \<Rightarrow> Some (JObj [], r)
           | _ \<Rightarrow> map_option (\<lambda>(ms, r). (JObj ms, r)) (parse_members [] ts))
      | _ \<Rightarrow> None)"
| "parse_elements acc ts =
     (case parse_value ts of
        None \<Rightarrow> None
      | Some (v, r) \<Rightarrow>
          if length r < length ts then
            (case r of
               TComma # r' \<Rightarrow> parse_elements (acc @ [v]) r'
             | TRBracket # r' \<Rightarrow> Some (acc @ [v], r')
             | _ \<Rightarrow> None)
          else None)"
| "parse_members acc ts =
     (case ts of
        TString k # TColon # ts' \<Rightarrow>
          (case parse_value ts' of
             None \<Rightarrow> None
           | Some (v, r) \<Rightarrow>
               if length r < length ts' then
                 (case r of
                    TComma # r' \<Rightarrow> parse_members (AList.update k v acc) r'
                  | TRBrace # r' \<Rightarrow> Some (AList.update k v acc, r')
                  | _ \<Rightarrow> None)
               else None)
      | _ \<Rightarrow> None)"
  by pat_completeness auto
termination
  by (relation "measure (\<lambda>x. case x of
        Inl ts \<Rightarrow> 2 * length ts
      | Inr (Inl (acc, ts)) \<Rightarrow> 2 * length ts + 1
      | Inr (Inr (acc, ts)) \<Rightarrow> 2 * length ts + 1)") auto

definition json_parse :: "jstring \<Rightarrow> json option" where
  "json_parse s =
     (case lex s of
        None \<Rightarrow> None
      | Some ts \<Rightarrow> (case parse_value ts of Some (v, []) \<Rightarrow> Some v | _ \<Rightarrow> None))"

section \<open>Messages, tool results and the environment\<close>

text \<open>
  \<^verbatim>\<open>ChatMessage\<close> of \<^verbatim>\<open>llm.service.ts\<close>; \<open>tool_call_ref\<close> is an entry of its
  \<^verbatim>\<open>tool_calls\<close> (the \<^verbatim>\<open>type\<close> of such an entry is always "function") and of
  \<^verbatim>\<open>StreamChunk.toolCalls\<close>.
\<close>

datatype role = System | User | Assistant | Tool

type_synonym jobject = "(jstring \<times> json) list"

record tool_call_ref =
  tc_id :: jstring
  tc_name :: jstring
  tc_arguments :: jstring

record chat_message =
  cm_role :: role
  cm_content :: jstring
  cm_tool_calls :: "tool_call_ref list option"
  cm_tool_call_id :: "jstring option"
  cm_name :: "jstring option"

text \<open>
  \<^verbatim>\<open>ToolResult\<close> of \<^verbatim>\<open>tools.registry.ts\<close>. Every content item has type "text", so
  the content is the list of the items' texts. \<^verbatim>\<open>_meta\<close> comes in through the index
  signature of the interface.
\<close>

record tool_result =
  tr_content :: "jstring list"
  tr_meta :: "jobject option"
  tr_structuredContent :: "jobject option"
  tr_widgetId :: "jstring option"

text \<open>
  What a JavaScript call can throw: an \<^verbatim>\<open>Error\<close> with its message, or any other value.
\<close>

datatype thrown = Error jstring | NonError json

text \<open>
  \<^verbatim>\<open>ToolDefinition\<close>: the name and the handler. A handler gets the parsed arguments and
  the user id of \<^verbatim>\<open>authInfo.extra\<close>; it may read and write a world \<open>'w\<close> the drivers
  know nothing of, and it returns a result or throws.
\<close>

record 'w tool_definition =
  td_name :: jstring
  td_handler :: "json \<Rightarrow> jstring \<Rightarrow> 'w \<Rightarrow> (thrown + tool_result) \<times> 'w"

text \<open>
  The message of a non-streaming response: \<^verbatim>\<open>content\<close> may be null, \<^verbatim>\<open>tool_calls\<close>
  may be absent, and a tool call is of type "function" or of another type.
\<close>

datatype llm_tool_call = FunctionCall jstring jstring jstring | CustomCall jstring

record llm_message =
  lm_content :: "jstring option"
  lm_tool_calls :: "llm_tool_call list option"

text \<open>
  One event of a streamed response: \<^verbatim>\<open>chunk.choices?.[0]\<close> may be missing; a choice has
  a finish reason and a delta with optional content and optional tool-call deltas.
\<close>

record function_delta =
  fd_name :: "jstring option"
  fd_arguments :: "jstring option"

record tool_call_delta =
  tcd_index :: "nat option"
  tcd_id :: "jstring option"
  tcd_function :: "function_delta option"

record choice =
  ch_finish_reason :: "jstring option"
  ch_content :: "jstring option"
  ch_tool_calls :: "tool_call_delta list option"

type_synonym llm_chunk = "choice option"

datatype provider = OpenAI | Grok

text \<open>
  The collaborators of the drivers. \<open>openai_create\<close> is the non-streaming
  \<^verbatim>\<open>openai.chat.completions.create\<close>: it throws, or returns
  \<^verbatim>\<open>response.choices[0]?.message\<close>. \<open>stream_create\<close> is the streaming call of the
  chosen client: the events it delivers, and the error that ends the stream, if any (an
  error of the call itself is a stream that fails before its first event). Both see the
  message history (the tool schema list of \<^verbatim>\<open>getTools\<close> is fixed with the registry).
  The wording of a \<^verbatim>\<open>SyntaxError\<close> of \<^verbatim>\<open>JSON.parse\<close> and of a \<^verbatim>\<open>TypeError\<close>
  for an access to a property of \<^verbatim>\<open>undefined\<close> belongs to the JavaScript engine.
\<close>

record 'w env =
  toolRegistry :: "'w tool_definition list"
  openai_create :: "chat_message list \<Rightarrow> 'w \<Rightarrow> (thrown + llm_message option) \<times> 'w"
  stream_create :: "provider \<Rightarrow> chat_message list \<Rightarrow> 'w \<Rightarrow> (llm_chunk list \<times> thrown option) \<times> 'w"
  syntax_error_message :: "jstring \<Rightarrow> jstring"
  type_error_message :: "jstring \<Rightarrow> jstring"
  randomUUID :: "'w \<Rightarrow> jstring \<times> 'w"
  now :: "'w \<Rightarrow> nat"

section \<open>What both drivers do for one tool call\<close>

text \<open>
  The local variables of a run that the tool calls change: the history, the three sticky
  fields and the world. \<open>toolResults\<close> is not a variable of the source: it records the
  results the handlers returned, in call order (the source logs each one as "called tool").
\<close>

record 'w run_state =
  currentMessages :: "chat_message list"
  finalMeta :: "jobject option"
  finalStructuredContent :: "jobject option"
  finalWidgetId :: "jstring option"
  world :: 'w
  toolResults :: "tool_result list"

definition maxIterations :: nat where
  "maxIterations = 10"

definition initial_state :: "chat_message list \<Rightarrow> 'w \<Rightarrow> 'w run_state" where
  "initial_state messages w =
     \<lparr>currentMessages = messages, finalMeta = None, finalStructuredContent = None,
      finalWidgetId = None, world = w, toolResults = []\<rparr>"

definition push :: "chat_message \<Rightarrow> ('w, 'z) run_state_scheme \<Rightarrow> ('w, 'z) run_state_scheme" where
  "push m st = st\<lparr>currentMessages := currentMessages st @ [m]\<rparr>"

definition find_tool :: "'w env \<Rightarrow> jstring \<Rightarrow> 'w tool_definition option" where
  "find_tool env n = find (\<lambda>t. td_name t = n) (toolRegistry env)"

definition tool_message :: "jstring \<Rightarrow> tool_call_ref \<Rightarrow> chat_message" where
  "tool_message text tc =
     \<lparr>cm_role = Tool, cm_content = text, cm_tool_calls = None,
      cm_tool_call_id = Some (tc_id tc), cm_name = Some (tc_name tc)\<rparr>"

definition assistant_message :: "jstring \<Rightarrow> tool_call_ref list \<Rightarrow> chat_message" where
  "assistant_message text tcs =
     \<lparr>cm_role = Assistant, cm_content = text, cm_tool_calls = Some tcs,
      cm_tool_call_id = None, cm_name = None\<rparr>"

text \<open>\<^verbatim>\<open>error instanceof Error ? error.message : "Unknown error"\<close>\<close>

definition thrown_message :: "thrown \<Rightarrow> jstring" where
  "thrown_message e = (case e of Error m \<Rightarrow> m | NonError v \<Rightarrow> js ''Unknown error'')"

definition not_found_content :: "jstring \<Rightarrow> jstring" where
  "not_found_content n = stringify_error (js ''Tool '' @ n @ js '' not found'')"

definition error_content :: "thrown \<Rightarrow> jstring" where
  "error_content e = stringify_error (js ''Error executing tool: '' @ thrown_message e)"

text \<open>
  \<^verbatim>\<open>metaPath && typeof metaPath === "string"\<close>: the \<^verbatim>\<open>path\<close> entry of a captured
  \<^verbatim>\<open>_meta\<close>, when it is a string that is not empty.
\<close>

definition meta_path :: "jobject \<Rightarrow> jstring option" where
  "meta_path m =
     (case map_of m (js ''path'') of
        Some (JStr p) \<Rightarrow> if p = [] then None else Some p
      | _ \<Rightarrow> None)"

text \<open>
  Lines 171 to 186 and 421 to 434: \<^verbatim>\<open>_meta\<close> is captured when the result has one and
  none was captured before, and \<^verbatim>\<open>finalWidgetId\<close> is set in that branch only, from the
  path of that \<^verbatim>\<open>_meta\<close>; \<^verbatim>\<open>structuredContent\<close> likewise. An object is truthy also
  when it has no entry. The \<^verbatim>\<open>widgetId\<close> of the result is not read.
\<close>

definition capture_sticky ::
  "tool_result \<Rightarrow> ('w, 'z) run_state_scheme \<Rightarrow> ('w, 'z) run_state_scheme" where
  "capture_sticky result st =
     (let st1 =
        (case tr_meta result of
           None \<Rightarrow> st
         | Some m \<Rightarrow>
             if finalMeta st = None then
               (case meta_path m of
                  None \<Rightarrow> st\<lparr>finalMeta := Some m\<rparr>
                | Some p \<Rightarrow> st\<lparr>finalMeta := Some m, finalWidgetId := Some p\<rparr>)
             else st)
      in case tr_structuredContent result of
           None \<Rightarrow> st1
         | Some sc \<Rightarrow>
             if finalStructuredContent st1 = None then st1\<lparr>finalStructuredContent := Some sc\<rparr>
             else st1)"

text \<open>
  \<^verbatim>\<open>result.content.map((item) => item.text || item).join("\n")\<close>: an item whose text is
  empty stands for itself, and \<^verbatim>\<open>join\<close> writes an object as "[object Object]".
\<close>

definition item_text :: "jstring \<Rightarrow> jstring" where
  "item_text t = (if t = [] then js ''[object Object]'' else t)"

fun join_lines :: "jstring list \<Rightarrow> jstring" where
  "join_lines [] = []"
| "join_lines [x] = x"
| "join_lines (x # y # ys) = x @ [0x0A] @ join_lines (y # ys)"

definition result_text :: "tool_result \<Rightarrow> jstring" where
  "result_text result = join_lines (map item_text (tr_content result))"

definition record_result ::
  "tool_result \<Rightarrow> 'w \<Rightarrow> ('w, 'z) run_state_scheme \<Rightarrow> ('w, 'z) run_state_scheme" where
  "record_result result w st = st\<lparr>world := w, toolResults := toolResults st @ [result]\<rparr>"

section \<open>The Completion Driver: getChatCompletion\<close>

record chat_completion_result =
  r_content :: jstring
  r_meta :: "jobject option"
  r_structuredContent :: "jobject option"
  r_widgetId :: "jstring option"

text \<open>The body of the loop over \<^verbatim>\<open>functionToolCalls\<close>, lines 144 to 216.\<close>

definition execute_tool_call :: "'w env \<Rightarrow> jstring \<Rightarrow> 'w run_state \<Rightarrow> tool_call_ref \<Rightarrow> 'w run_state" where
  "execute_tool_call env userId st tc =
     (case find_tool env (tc_name tc) of
        None \<Rightarrow> push (tool_message (not_found_content (tc_name tc)) tc) st
      | Some tool \<Rightarrow>
          (case json_parse (tc_arguments tc) of
             None \<Rightarrow>
               push (tool_message
                 (error_content (Error (syntax_error_message env (tc_arguments tc)))) tc) st
           | Some args \<Rightarrow>
               (case td_handler tool args userId (world st) of
                  (Inl e, w) \<Rightarrow> push (tool_message (error_content e) tc) (st\<lparr>world := w\<rparr>)
                | (Inr result, w) \<Rightarrow>
                    push (tool_message (result_text result) tc)
                      (capture_sticky result (record_result result w st)))))"

text \<open>\<^verbatim>\<open>toolCalls.filter((tc) => tc.type === "function")\<close>, as entries of the history.\<close>

fun functionToolCalls :: "llm_tool_call list \<Rightarrow> tool_call_ref list" where
  "functionToolCalls [] = []"
| "functionToolCalls (FunctionCall i n a # tcs) =
     \<lparr>tc_id = i, tc_name = n, tc_arguments = a\<rparr> # functionToolCalls tcs"
| "functionToolCalls (CustomCall i # tcs) = functionToolCalls tcs"

text \<open>\<^verbatim>\<open>message.content || ""\<close>, and every other \<^verbatim>\<open>x || ""\<close> on a string.\<close>

definition or_empty :: "jstring option \<Rightarrow> jstring" where
  "or_empty c = (case c of None \<Rightarrow> [] | Some s \<Rightarrow> s)"

definition completion_result :: "jstring \<Rightarrow> 'w run_state \<Rightarrow> chat_completion_result" where
  "completion_result text st =
     \<lparr>r_content = text, r_meta = finalMeta st,
      r_structuredContent = finalStructuredContent st, r_widgetId = finalWidgetId st\<rparr>"

text \<open>
  The while loop of lines 98 to 231 and the throw of line 234. \<open>iteration\<close> is the
  variable of that name, which counts the requests sent; the loop returns it with the
  outcome and the final state.
\<close>

function completion_loop ::
  "'w env \<Rightarrow> jstring \<Rightarrow> nat \<Rightarrow> 'w run_state \<Rightarrow>
     (thrown + chat_completion_result) \<times> nat \<times> 'w run_state" where
  "completion_loop env userId iteration st =
     (if iteration < maxIterations then
        (case openai_create env (currentMessages st) (world st) of
           (Inl e, w) \<Rightarrow> (Inl e, iteration + 1, st\<lparr>world := w\<rparr>)
         | (Inr None, w) \<Rightarrow>
             (Inl (Error (js ''No message in LLM response'')), iteration + 1, st\<lparr>world := w\<rparr>)
         | (Inr (Some message), w) \<Rightarrow>
             (case lm_tool_calls message of
                None \<Rightarrow>
                  (Inr (completion_result (or_empty (lm_content message)) st),
                   iteration + 1, st\<lparr>world := w\<rparr>)
              | Some toolCalls \<Rightarrow>
                  if toolCalls = [] then
                    (Inr (completion_result (or_empty (lm_content message)) st),
                     iteration + 1, st\<lparr>world := w\<rparr>)
                  else
                    completion_loop env userId (iteration + 1)
                      (foldl (execute_tool_call env userId)
                         (push (assistant_message (or_empty (lm_content message))
                                  (functionToolCalls toolCalls))
                            (st\<lparr>world := w\<rparr>))
                         (functionToolCalls toolCalls))))
      else (Inl (Error (js ''Maximum tool call iterations exceeded'')), iteration, st))"
  by pat_completeness auto
termination
  by (relation "measure (\<lambda>(env, userId, iteration, st). maxIterations - iteration)") auto

text \<open>
  \<^verbatim>\<open>getChatCompletion\<close>: the loop from \<^verbatim>\<open>iteration = 0\<close> on a copy of the messages,
  and the outer catch, which wraps whatever was thrown.
\<close>

definition completion_failure :: "thrown \<Rightarrow> thrown" where
  "completion_failure e = Error (js ''Failed to get chat completion: '' @ thrown_message e)"

definition getChatCompletion_run ::
  "'w env \<Rightarrow> chat_message list \<Rightarrow> jstring \<Rightarrow> 'w \<Rightarrow>
     (thrown + chat_completion_result) \<times> nat \<times> 'w run_state" where
  "getChatCompletion_run env messages userId w =
     (case completion_loop env userId 0 (initial_state messages w) of
        (Inl e, n, st) \<Rightarrow> (Inl (completion_failure e), n, st)
      | (Inr r, n, st) \<Rightarrow> (Inr r, n, st))"

definition getChatCompletion ::
  "'w env \<Rightarrow> chat_message list \<Rightarrow> jstring \<Rightarrow> 'w \<Rightarrow> (thrown + chat_completion_result) \<times> 'w" where
  "getChatCompletion env messages userId w =
     (case getChatCompletion_run env messages userId w of (r, n, st) \<Rightarrow> (r, world st))"

section \<open>The Streaming Driver: streamChatCompletion\<close>

text \<open>
  \<^verbatim>\<open>StreamChunk\<close>, by its \<^verbatim>\<open>type\<close>: content, tool_call, tool_result, metadata (with
  \<^verbatim>\<open>_meta\<close>, \<^verbatim>\<open>structuredContent\<close> and \<^verbatim>\<open>widgetId\<close>) and done (with the
  \<^verbatim>\<open>assistantMessageId\<close> that the session wrapper adds).
\<close>

datatype stream_chunk =
    Content jstring
  | ToolCalls "tool_call_ref list"
  | ToolResult jstring
  | Metadata "jobject option" "jobject option" "jstring option"
  | Done "jstring option"

text \<open>The state of a streaming run: that of a run, and the chunks yielded so far.\<close>

record 'w stream_state = "'w run_state" +
  yielded :: "stream_chunk list"

definition yield :: "stream_chunk \<Rightarrow> 'w stream_state \<Rightarrow> 'w stream_state" where
  "yield c st = st\<lparr>yielded := yielded st @ [c]\<rparr>"

definition yield_all :: "stream_chunk list \<Rightarrow> 'w stream_state \<Rightarrow> 'w stream_state" where
  "yield_all cs st = st\<lparr>yielded := yielded st @ cs\<rparr>"

text \<open>
  Truthiness: of a string, which is present and not empty, as \<^verbatim>\<open>if (toolCallDelta.id)\<close>
  tests it; of an object, which is present.
\<close>

definition present :: "'a option \<Rightarrow> bool" where
  "present x = (case x of None \<Rightarrow> False | Some v \<Rightarrow> True)"


definition truthy :: "jstring option \<Rightarrow> bool" where
  "truthy s = (case s of None \<Rightarrow> False | Some t \<Rightarrow> t \<noteq> [])"

text \<open>
  An assignment to a property of \<^verbatim>\<open>toolCalls[index]\<close>: where the array has no entry at
  \<open>index\<close> the element is \<^verbatim>\<open>undefined\<close> and the assignment throws a \<^verbatim>\<open>TypeError\<close>.
\<close>

definition assign_at ::
  "'w env \<Rightarrow> jstring \<Rightarrow> nat \<Rightarrow> (tool_call_ref \<Rightarrow> tool_call_ref) \<Rightarrow> tool_call_ref list \<Rightarrow>
     thrown + tool_call_ref list" where
  "assign_at env property index f tcs =
     (if index < length tcs then Inr (tcs[index := f (tcs ! index)])
      else Inl (Error (type_error_message env property)))"

text \<open>The body of the loop over \<^verbatim>\<open>deltaToolCalls\<close>, lines 326 to 355.\<close>

definition merge_delta ::
  "'w env \<Rightarrow> tool_call_ref list \<Rightarrow> tool_call_delta \<Rightarrow> thrown + tool_call_ref list" where
  "merge_delta env tcs d =
     (case tcd_function d of
        None \<Rightarrow> Inr tcs
      | Some f \<Rightarrow>
          (case tcd_index d of
             None \<Rightarrow> Inr tcs
           | Some index \<Rightarrow>
               (let tcs0 =
                  (if index \<ge> length tcs then
                     tcs @ [\<lparr>tc_id = or_empty (tcd_id d), tc_name = [], tc_arguments = []\<rparr>]
                   else tcs)
                in
                case (if truthy (tcd_id d) then
                        assign_at env (js ''id'') index (\<lambda>t. t\<lparr>tc_id := or_empty (tcd_id d)\<rparr>) tcs0
                      else Inr tcs0) of
                  Inl e \<Rightarrow> Inl e
                | Inr tcs1 \<Rightarrow>
                    (case (if truthy (fd_name f) then
                             assign_at env (js ''name'') index
                               (\<lambda>t. t\<lparr>tc_name := or_empty (fd_name f)\<rparr>) tcs1
                           else Inr tcs1) of
                       Inl e \<Rightarrow> Inl e
                     | Inr tcs2 \<Rightarrow>
                         (if truthy (fd_arguments f) then
                            assign_at env (js ''arguments'') index
                              (\<lambda>t. t\<lparr>tc_arguments := tc_arguments t @ or_empty (fd_arguments f)\<rparr>) tcs2
                          else Inr tcs2)))))"

fun merge_deltas ::
  "'w env \<Rightarrow> tool_call_ref list \<Rightarrow> tool_call_delta list \<Rightarrow> thrown + tool_call_ref list" where
  "merge_deltas env tcs [] = Inr tcs"
| "merge_deltas env tcs (d # ds) =
     (case merge_delta env tcs d of
        Inl e \<Rightarrow> Inl e
      | Inr tcs' \<Rightarrow> merge_deltas env tcs' ds)"

text \<open>The variables of one round, lines 296 to 302.\<close>

record round_acc =
  accumulatedContent :: jstring
  toolCalls :: "tool_call_ref list"
  hasToolCalls :: bool

definition empty_round :: round_acc where
  "empty_round = \<lparr>accumulatedContent = [], toolCalls = [], hasToolCalls = False\<rparr>"

text \<open>
  The body of \<^verbatim>\<open>for await (const chunk of stream)\<close>, lines 306 to 366: the variables
  of the round after the event, or what was thrown, and the chunks yielded.
\<close>

definition consume_chunk ::
  "'w env \<Rightarrow> llm_chunk \<Rightarrow> round_acc \<Rightarrow> (thrown + round_acc) \<times> stream_chunk list" where
  "consume_chunk env chunk acc =
     (case chunk of
        None \<Rightarrow> (Inr acc, [])
      | Some choice \<Rightarrow>
          (let acc1 =
             (if ch_finish_reason choice = Some (js ''tool_calls'')
              then acc\<lparr>hasToolCalls := True\<rparr> else acc)
           in
           case (case ch_tool_calls choice of
                   None \<Rightarrow> Inr acc1
                 | Some ds \<Rightarrow>
                     if ds = [] then Inr acc1
                     else
                       (case merge_deltas env (toolCalls acc1) ds of
                          Inl e \<Rightarrow> Inl e
                        | Inr tcs \<Rightarrow> Inr (acc1\<lparr>hasToolCalls := True, toolCalls := tcs\<rparr>))) of
             Inl e \<Rightarrow> (Inl e, [])
           | Inr acc2 \<Rightarrow>
               if truthy (ch_content choice) then
                 (Inr (acc2\<lparr>accumulatedContent :=
                          accumulatedContent acc2 @ or_empty (ch_content choice)\<rparr>),
                  [Content (or_empty (ch_content choice))])
               else (Inr acc2, [])))"

text \<open>
  The whole \<^verbatim>\<open>for await\<close> loop over the events a stream delivers: the variables of the
  round at its end, or what was thrown, and the chunks yielded on the way.
\<close>

fun consume_stream ::
  "'w env \<Rightarrow> llm_chunk list \<Rightarrow> round_acc \<Rightarrow> (thrown + round_acc) \<times> stream_chunk list" where
  "consume_stream env [] acc = (Inr acc, [])"
| "consume_stream env (c # cs) acc =
     (case consume_chunk env c acc of
        (Inl e, ys) \<Rightarrow> (Inl e, ys)
      | (Inr acc', ys) \<Rightarrow>
          (case consume_stream env cs acc' of (r, ys') \<Rightarrow> (r, ys @ ys')))"

text \<open>
  The body of the loop over \<^verbatim>\<open>toolCalls\<close>, lines 393 to 471. It differs from the one of
  the Completion Driver in the guard on the argument text (line 411) and in the
  \<^verbatim>\<open>tool_result\<close> chunk yielded before the tool message is pushed.
\<close>

definition stream_execute_tool_call ::
  "'w env \<Rightarrow> jstring \<Rightarrow> 'w stream_state \<Rightarrow> tool_call_ref \<Rightarrow> 'w stream_state" where
  "stream_execute_tool_call env userId st tc =
     (case find_tool env (tc_name tc) of
        None \<Rightarrow> push (tool_message (not_found_content (tc_name tc)) tc) st
      | Some tool \<Rightarrow>
          (case (if tc_arguments tc = [] then Some (JObj []) else json_parse (tc_arguments tc)) of
             None \<Rightarrow>
               push (tool_message
                       (error_content (Error (syntax_error_message env (tc_arguments tc)))) tc)
                 (yield (ToolResult
                           (error_content (Error (syntax_error_message env (tc_arguments tc)))))
                    st)
           | Some args \<Rightarrow>
               (case td_handler tool args userId (world st) of
                  (Inl e, w) \<Rightarrow>
                    push (tool_message (error_content e) tc)
                      (yield (ToolResult (error_content e)) (st\<lparr>world := w\<rparr>))
                | (Inr result, w) \<Rightarrow>
                    push (tool_message (result_text result) tc)
                      (yield (ToolResult (result_text result))
                         (capture_sticky result (record_result result w st))))))"

text \<open>Lines 480 to 492: the metadata chunk, if a sticky field is set, and the done chunk.\<close>

definition finish :: "'w stream_state \<Rightarrow> 'w stream_state" where
  "finish st =
     yield (Done None)
       (if present (finalMeta st) \<or> present (finalStructuredContent st) \<or> truthy (finalWidgetId st)
        then yield (Metadata (finalMeta st) (finalStructuredContent st) (finalWidgetId st)) st
        else st)"

text \<open>The while loop of lines 274 to 493 and the throw of line 496.\<close>

function stream_loop ::
  "'w env \<Rightarrow> jstring \<Rightarrow> provider \<Rightarrow> nat \<Rightarrow> 'w stream_state \<Rightarrow>
     thrown option \<times> nat \<times> 'w stream_state" where
  "stream_loop env userId provider iteration st =
     (if iteration < maxIterations then
        (case stream_create env provider (currentMessages st) (world st) of
           ((chunks, failure), w) \<Rightarrow>
             (case consume_stream env chunks empty_round of
                (Inl e, ys) \<Rightarrow> (Some e, iteration + 1, yield_all ys (st\<lparr>world := w\<rparr>))
              | (Inr acc, ys) \<Rightarrow>
                  (case failure of
                     Some e \<Rightarrow> (Some e, iteration + 1, yield_all ys (st\<lparr>world := w\<rparr>))
                   | None \<Rightarrow>
                       if hasToolCalls acc \<and> toolCalls acc \<noteq> [] then
                         stream_loop env userId provider (iteration + 1)
                           (foldl (stream_execute_tool_call env userId)
                              (push (assistant_message (accumulatedContent acc) (toolCalls acc))
                                 (yield (ToolCalls (toolCalls acc))
                                    (yield_all ys (st\<lparr>world := w\<rparr>))))
                              (toolCalls acc))
                       else (None, iteration + 1, finish (yield_all ys (st\<lparr>world := w\<rparr>))))))
      else (Some (Error (js ''Maximum tool call iterations exceeded'')), iteration, st))"
  by pat_completeness auto
termination
  by (relation "measure (\<lambda>(env, userId, provider, iteration, st). maxIterations - iteration)") auto

definition stream_failure :: "thrown \<Rightarrow> thrown" where
  "stream_failure e = Error (js ''Failed to stream chat completion: '' @ thrown_message e)"

definition initial_stream_state :: "chat_message list \<Rightarrow> 'w \<Rightarrow> 'w stream_state" where
  "initial_stream_state messages w =
     \<lparr>currentMessages = messages, finalMeta = None, finalStructuredContent = None,
      finalWidgetId = None, world = w, toolResults = [], yielded = []\<rparr>"

text \<open>
  \<^verbatim>\<open>streamChatCompletion\<close>, consumed to its end: what the generator threw (if it did),
  the value of \<^verbatim>\<open>iteration\<close>, and the final state with the chunks it yielded.
\<close>

definition streamChatCompletion ::
  "'w env \<Rightarrow> chat_message list \<Rightarrow> jstring \<Rightarrow> provider \<Rightarrow> 'w \<Rightarrow>
     thrown option \<times> nat \<times> 'w stream_state" where
  "streamChatCompletion env messages userId provider w =
     (case stream_loop env userId provider 0 (initial_stream_state messages w) of
        (Some e, n, st) \<Rightarrow> (Some (stream_failure e), n, st)
      | (None, n, st) \<Rightarrow> (None, n, st))"

section \<open>The session wrapper: streamUserMessageById and streamMessage\<close>

text \<open>
  The tables \<^verbatim>\<open>dev_message\<close> and \<^verbatim>\<open>dev_session\<close>. A table is the list of its rows in
  the order of their creation, which is the order of \<^verbatim>\<open>orderBy(created_at)\<close>. Of the
  timestamps only \<^verbatim>\<open>updated_at\<close> of a session is kept, since the wrapper writes it.
\<close>

record dev_message =
  dm_id :: jstring
  dm_content :: jstring
  dm_structured_content :: "json option"
  dm_widget_id :: "jstring option"
  dm_role :: role
  dm_session_id :: jstring
  dm_user_id :: jstring

record dev_session =
  ds_id :: jstring
  ds_name :: jstring
  ds_user_id :: jstring
  ds_updated_at :: nat

record store =
  devMessage :: "dev_message list"
  devSession :: "dev_session list"

text \<open>\<^verbatim>\<open>content.includes(marker)\<close>: the marker occurs somewhere in the content.\<close>

fun js_includes :: "jstring \<Rightarrow> jstring \<Rightarrow> bool" where
  "js_includes [] t = (t = [])"
| "js_includes (c # cs) t = (take (length t) (c # cs) = t \<or> js_includes cs t)"

definition ignore_marker :: jstring where
  "ignore_marker = js ''-- IGNORE CONVERSATION BEFORE THIS LINE --''"

text \<open>
  The \<^verbatim>\<open>forEach\<close> of lines 1692 to 1698: a message with the marker empties the list,
  and then every message, that one too, is pushed.
\<close>

definition previousMessages :: "dev_message list \<Rightarrow> dev_message list" where
  "previousMessages allPreviousMessages =
     foldl (\<lambda>previous msg.
              (if js_includes (dm_content msg) ignore_marker then [] else previous) @ [msg])
       [] allPreviousMessages"

definition touch_session :: "jstring \<Rightarrow> nat \<Rightarrow> store \<Rightarrow> store" where
  "touch_session sessionId t db =
     db\<lparr>devSession :=
          map (\<lambda>s. if ds_id s = sessionId then s\<lparr>ds_updated_at := t\<rparr> else s) (devSession db)\<rparr>"

record session_context =
  userMsg :: dev_message
  previous :: "dev_message list"
  sessionId :: jstring
  session :: dev_session

text \<open>The first transaction, lines 1648 to 1701.\<close>

definition load_context ::
  "'w env \<Rightarrow> jstring \<Rightarrow> jstring \<Rightarrow> store \<Rightarrow> 'w \<Rightarrow> thrown + session_context \<times> store" where
  "load_context env userId messageId db w =
     (case find (\<lambda>m. dm_id m = messageId \<and> dm_user_id m = userId) (devMessage db) of
        None \<Rightarrow> Inl (Error (js ''User message with ID '' @ messageId @ js '' not found''))
      | Some um \<Rightarrow>
          (case find (\<lambda>s. ds_id s = dm_session_id um \<and> ds_user_id s = userId) (devSession db) of
             None \<Rightarrow> Inl (Error (js ''Session with ID '' @ dm_session_id um @ js '' not found''))
           | Some s \<Rightarrow>
               Inr (\<lparr>userMsg = um,
                     previous =
                       previousMessages
                         (filter (\<lambda>m. dm_session_id m = dm_session_id um \<and> dm_user_id m = userId)
                            (devMessage db)),
                     sessionId = dm_session_id um,
                     session = s\<rparr>,
                    touch_session (dm_session_id um) (now env w) db)))"

definition to_chat_message :: "dev_message \<Rightarrow> chat_message" where
  "to_chat_message msg =
     \<lparr>cm_role = dm_role msg, cm_content = dm_content msg, cm_tool_calls = None,
      cm_tool_call_id = None, cm_name = None\<rparr>"

text \<open>
  The variables of the wrapper while it consumes the driver's chunks, the chunks it has
  yielded to its own consumer, the store and the world.
\<close>

record 'w wrapper_state =
  w_content :: jstring
  w_finalMeta :: "jobject option"
  w_finalStructuredContent :: "jobject option"
  w_finalWidgetId :: "jstring option"
  w_out :: "stream_chunk list"
  w_store :: store
  w_world :: 'w

text \<open>Lines 1742 to 1748: the structured content with the \<^verbatim>\<open>_meta\<close> entry added, or null.\<close>

definition combinedStructuredContent :: "jobject option \<Rightarrow> jobject option \<Rightarrow> json option" where
  "combinedStructuredContent sc m =
     (if present sc \<or> present m then
        Some (JObj ((case m of None \<Rightarrow> id | Some mv \<Rightarrow> AList.update (js ''_meta'') (JObj mv))
                      (case sc of None \<Rightarrow> [] | Some v \<Rightarrow> v)))
      else None)"

text \<open>
  \<^verbatim>\<open>String.prototype.trim\<close> removes the white space and the line terminators of
  ECMA-262 from both ends.
\<close>

definition is_js_space :: "code_unit \<Rightarrow> bool" where
  "is_js_space c =
     (c = 0x09 \<or> c = 0x0A \<or> c = 0x0B \<or> c = 0x0C \<or> c = 0x0D \<or> c = 0x20 \<or> c = 0xA0
      \<or> c = 0x1680 \<or> (0x2000 \<le> c \<and> c \<le> 0x200A) \<or> c = 0x2028 \<or> c = 0x2029
      \<or> c = 0x202F \<or> c = 0x205F \<or> c = 0x3000 \<or> c = 0xFEFF)"

definition trim :: "jstring \<Rightarrow> jstring" where
  "trim s = rev (dropWhile is_js_space (rev (dropWhile is_js_space s)))"

definition name_prompt :: jstring where
  "name_prompt = js ''Based on the following conversation, generate a short, descriptive name (3-5 words max) for this chat session. Return only the name, nothing else.''"

definition plain_message :: "role \<Rightarrow> jstring \<Rightarrow> chat_message" where
  "plain_message r text =
     \<lparr>cm_role = r, cm_content = text, cm_tool_calls = None, cm_tool_call_id = None,
      cm_name = None\<rparr>"

text \<open>
  Lines 1776 to 1822: the session name, generated once. An error of
  \<^verbatim>\<open>getChatCompletion\<close> is logged and dropped.
\<close>

definition generate_session_name ::
  "'w env \<Rightarrow> jstring \<Rightarrow> session_context \<Rightarrow> jstring \<Rightarrow> store \<Rightarrow> 'w \<Rightarrow> store \<times> 'w" where
  "generate_session_name env userId ctx text db w =
     (if length (previous ctx) = 3 \<and> ds_name (session ctx) = js ''New conversation'' then
        (case getChatCompletion env
                (plain_message System name_prompt
                   # map to_chat_message (previous ctx) @ [plain_message Assistant text])
                userId w of
           (Inl e, w') \<Rightarrow> (db, w')
         | (Inr r, w') \<Rightarrow>
             if trim (r_content r) \<noteq> [] then
               (db\<lparr>devSession :=
                     map (\<lambda>s. if ds_id s = sessionId ctx then s\<lparr>ds_name := trim (r_content r)\<rparr>
                               else s) (devSession db)\<rparr>, w')
             else (db, w'))
      else (db, w))"

text \<open>Lines 1741 to 1770: the assistant message is inserted and the session touched.\<close>

definition save_assistant_message ::
  "'w env \<Rightarrow> jstring \<Rightarrow> session_context \<Rightarrow> 'w wrapper_state \<Rightarrow> jstring \<times> store \<times> 'w" where
  "save_assistant_message env userId ctx wst =
     (case randomUUID env (w_world wst) of
        (uuid, w) \<Rightarrow>
          (uuid,
           touch_session (sessionId ctx) (now env w)
             ((w_store wst)\<lparr>devMessage := devMessage (w_store wst) @
                [\<lparr>dm_id = uuid, dm_content = w_content wst,
                  dm_structured_content =
                    combinedStructuredContent (w_finalStructuredContent wst) (w_finalMeta wst),
                  dm_widget_id =
                    (if truthy (w_finalWidgetId wst) then w_finalWidgetId wst else None),
                  dm_role = Assistant, dm_session_id = sessionId ctx,
                  dm_user_id = userId\<rparr>]\<rparr>),
           w))"

text \<open>The body of the loop over the driver's chunks, lines 1722 to 1830.\<close>

definition on_chunk ::
  "'w env \<Rightarrow> jstring \<Rightarrow> session_context \<Rightarrow> 'w wrapper_state \<Rightarrow> stream_chunk \<Rightarrow> 'w wrapper_state" where
  "on_chunk env userId ctx wst0 chunk =
     (let wst = wst0\<lparr>w_out := w_out wst0 @ [chunk]\<rparr> in
      case chunk of
        Content text \<Rightarrow> if text \<noteq> [] then wst\<lparr>w_content := w_content wst @ text\<rparr> else wst
      | Metadata m sc wid \<Rightarrow>
          wst\<lparr>w_finalMeta := m, w_finalStructuredContent := sc, w_finalWidgetId := wid\<rparr>
      | Done i \<Rightarrow>
          (case save_assistant_message env userId ctx wst of
             (uuid, db, w) \<Rightarrow>
               (case generate_session_name env userId ctx (w_content wst) db w of
                  (db', w') \<Rightarrow>
                    wst\<lparr>w_out := w_out wst @ [Done (Some uuid)], w_store := db', w_world := w'\<rparr>))
      | _ \<Rightarrow> wst)"

text \<open>
  \<^verbatim>\<open>streamUserMessageById\<close>, consumed to its end: the chunks it yielded, what it threw
  (if it did), the store and the world. The driver runs with its default provider. It
  yields a done chunk only as its last chunk, so the wrapper's writes come after all of
  the driver's.
\<close>

definition streamUserMessageById ::
  "'w env \<Rightarrow> jstring \<Rightarrow> jstring \<Rightarrow> store \<Rightarrow> 'w \<Rightarrow>
     stream_chunk list \<times> thrown option \<times> store \<times> 'w" where
  "streamUserMessageById env userId messageId db w =
     (case load_context env userId messageId db w of
        Inl e \<Rightarrow> ([], Some e, db, w)
      | Inr (ctx, db1) \<Rightarrow>
          (case streamChatCompletion env (map to_chat_message (previous ctx)) userId Grok w of
             (failure, n, st) \<Rightarrow>
               (let wst =
                  foldl (on_chunk env userId ctx)
                    \<lparr>w_content = [], w_finalMeta = None, w_finalStructuredContent = None,
                     w_finalWidgetId = None, w_out = [], w_store = db1, w_world = world st\<rparr>
                    (yielded st)
                in (w_out wst, failure, w_store wst, w_world wst))))"

text \<open>
  The subscription of \<^verbatim>\<open>streamMessage\<close> in \<^verbatim>\<open>chat.router.ts\<close>: every chunk goes to
  \<^verbatim>\<open>emit.next\<close>, and what the generator throws goes to \<^verbatim>\<open>emit.error\<close>.
\<close>

datatype event = Next stream_chunk | ErrorEvent thrown

definition streamMessage ::
  "'w env \<Rightarrow> jstring \<Rightarrow> jstring \<Rightarrow> store \<Rightarrow> 'w \<Rightarrow> event list \<times> store \<times> 'w" where
  "streamMessage env userId messageId db w =
     (case streamUserMessageById env userId messageId db w of
        (out, failure, db', w') \<Rightarrow>
          (map Next out @
             (case failure of
                None \<Rightarrow> []
              | Some (Error m) \<Rightarrow> [ErrorEvent (Error m)]
              | Some (NonError v) \<Rightarrow> [ErrorEvent (Error (js ''Unknown error during streaming''))]),
           db', w'))"

section \<open>Notions of the statements\<close>



definition stream_calls_tools :: "'w env \<Rightarrow> llm_chunk list \<times> thrown option \<Rightarrow> bool" where
  "stream_calls_tools env s =
     (case s of
        (chunks, None) \<Rightarrow>
          (case fst (consume_stream env chunks empty_round) of
             Inr acc \<Rightarrow> hasToolCalls acc \<and> toolCalls acc \<noteq> []
           | Inl e \<Rightarrow> False)
      | (chunks, Some e) \<Rightarrow> False)"

definition has_done :: "stream_chunk list \<Rightarrow> bool" where
  "has_done cs = list_ex (\<lambda>c. case c of Done i \<Rightarrow> True | _ \<Rightarrow> False) cs"

text \<open>
  A stream none of whose events carries a tool-call delta; the content chunks the driver
  yields for a stream, and the text the stream carries; the text of the content chunks of
  a chunk list; the chunks that end a successful run.
\<close>

definition no_tool_call_deltas :: "llm_chunk list \<Rightarrow> bool" where
  "no_tool_call_deltas chunks =
     list_all (\<lambda>c. case c of
                     None \<Rightarrow> True
                   | Some ch \<Rightarrow> (case ch_tool_calls ch of None \<Rightarrow> True | Some ds \<Rightarrow> ds = []))
       chunks"

definition content_yields :: "llm_chunk list \<Rightarrow> stream_chunk list" where
  "content_yields chunks =
     concat (map (\<lambda>c. case c of
                         None \<Rightarrow> []
                       | Some ch \<Rightarrow>
                           if truthy (ch_content ch) then [Content (or_empty (ch_content ch))]
                           else [])
               chunks)"

definition stream_text :: "llm_chunk list \<Rightarrow> jstring" where
  "stream_text chunks =
     concat (map (\<lambda>c. case c of None \<Rightarrow> [] | Some ch \<Rightarrow> or_empty (ch_content ch)) chunks)"

definition streamed_content :: "stream_chunk list \<Rightarrow> jstring" where
  "streamed_content cs = concat (map (\<lambda>c. case c of Content t \<Rightarrow> t | _ \<Rightarrow> []) cs)"

definition final_chunks ::
  "jobject option \<Rightarrow> jobject option \<Rightarrow> jstring option \<Rightarrow> stream_chunk list" where
  "final_chunks m sc wid =
     (if present m \<or> present sc \<or> truthy wid then [Metadata m sc wid] else []) @ [Done None]"





text \<open>
  The first value that is present in a list of optional values. The sticky fields of a
  state are as the results of the handlers so far determine them: \<^verbatim>\<open>_meta\<close> and
  \<^verbatim>\<open>structuredContent\<close> are the first ones present, and the widget id is the path of
  that first \<^verbatim>\<open>_meta\<close>. A chunk list without metadata and done chunks.
\<close>

fun first_present :: "'a option list \<Rightarrow> 'a option" where
  "first_present [] = None"
| "first_present (None # xs) = first_present xs"
| "first_present (Some v # xs) = Some v"

definition sticky_fields_ok :: "('w, 'z) run_state_scheme \<Rightarrow> bool" where
  "sticky_fields_ok st =
     (finalMeta st = first_present (map tr_meta (toolResults st))
      \<and> finalStructuredContent st = first_present (map tr_structuredContent (toolResults st))
      \<and> finalWidgetId st =
          (case first_present (map tr_meta (toolResults st)) of
             None \<Rightarrow> None
           | Some m \<Rightarrow> meta_path m))"

definition plain_chunks :: "stream_chunk list \<Rightarrow> bool" where
  "plain_chunks cs =
     list_all (\<lambda>c. case c of Metadata m sc wid \<Rightarrow> False | Done i \<Rightarrow> False | _ \<Rightarrow> True) cs"

text \<open>
  The variables of the wrapper when it starts to consume the driver's chunks, and the
  row of an assistant message.
\<close>

definition wrapper_start :: "store \<Rightarrow> 'w \<Rightarrow> 'w wrapper_state" where
  "wrapper_start db w =
     \<lparr>w_content = [], w_finalMeta = None, w_finalStructuredContent = None,
      w_finalWidgetId = None, w_out = [], w_store = db, w_world = w\<rparr>"

definition assistant_row ::
  "jstring \<Rightarrow> jstring \<Rightarrow> jobject option \<Rightarrow> jobject option \<Rightarrow> jstring option \<Rightarrow> jstring \<Rightarrow>
     jstring \<Rightarrow> dev_message" where
  "assistant_row uuid text sc m wid sid userId =
     \<lparr>dm_id = uuid, dm_content = text, dm_structured_content = combinedStructuredContent sc m,
      dm_widget_id = wid, dm_role = Assistant, dm_session_id = sid, dm_user_id = userId\<rparr>"



definition calls_of :: "llm_message \<Rightarrow> llm_tool_call list" where
  "calls_of message = (case lm_tool_calls message of None \<Rightarrow> [] | Some tcs \<Rightarrow> tcs)"



definition spells_arguments :: "thrown + llm_message option \<Rightarrow> bool" where
  "spells_arguments c =
     (case c of
        Inr (Some message) \<Rightarrow>
          list_all (\<lambda>tc. tc_arguments tc \<noteq> []) (functionToolCalls (calls_of message))
      | _ \<Rightarrow> True)"

definition silent_calls :: "thrown + llm_message option \<Rightarrow> bool" where
  "silent_calls c =
     (case c of
        Inr (Some message) \<Rightarrow> calls_of message = [] \<or> or_empty (lm_content message) = []
      | _ \<Rightarrow> True)"


section \<open>Concrete environments\<close>

text \<open>
  The world of these environments counts the requests sent to the model. In
  \<open>looping_env\<close> the model asks for the tool "again" in every round.
\<close>

definition looping_env :: "nat env" where
  "looping_env =
     \<lparr>toolRegistry =
        [\<lparr>td_name = js ''again'',
          td_handler = (\<lambda>args uid w. (Inr \<lparr>tr_content = [js ''ok''], tr_meta = None,
            tr_structuredContent = None, tr_widgetId = None\<rparr>, w))\<rparr>],
      openai_create = (\<lambda>msgs w. (Inr (Some \<lparr>lm_content = None,
          lm_tool_calls = Some [FunctionCall (js ''call'') (js ''again'') (js ''{}'')]\<rparr>), w + 1)),
      stream_create = (\<lambda>p msgs w. (([Some \<lparr>ch_finish_reason = None, ch_content = None,
          ch_tool_calls = Some [\<lparr>tcd_index = Some 0, tcd_id = Some (js ''call''),
            tcd_function = Some \<lparr>fd_name = Some (js ''again''), fd_arguments = Some (js ''{}'')\<rparr>\<rparr>]\<rparr>], None), w + 1)),
      syntax_error_message = (\<lambda>s. js ''Unexpected end of JSON input''),
      type_error_message = (\<lambda>s. js ''Cannot set properties of undefined''),
      randomUUID = (\<lambda>w. (js ''id'', w)),
      now = (\<lambda>w. w)\<rparr>"


text \<open>
  In \<open>faulty_env\<close> the model asks, in its first round, for a tool that is not
  registered, for one whose handler throws, for one with an argument text that is not
  JSON and for one that answers; in its second round it answers "done". In
  \<open>answer_env\<close> the model answers "4" at once.
\<close>

definition boom_tool :: "nat tool_definition" where
  "boom_tool =
     \<lparr>td_name = js ''boom'', td_handler = (\<lambda>args uid w. (Inl (Error (js ''kaboom'')), w))\<rparr>"

definition echo_tool :: "nat tool_definition" where
  "echo_tool =
     \<lparr>td_name = js ''echo'',
      td_handler = (\<lambda>args uid w. (Inr \<lparr>tr_content = [js ''pong''], tr_meta = None,
        tr_structuredContent = None, tr_widgetId = None\<rparr>, w))\<rparr>"

definition empty_args_call :: tool_call_ref where
  "empty_args_call = \<lparr>tc_id = js ''c9'', tc_name = js ''echo'', tc_arguments = []\<rparr>"

definition faulty_calls :: "llm_tool_call list" where
  "faulty_calls =
     [FunctionCall (js ''c1'') (js ''nope'') (js ''{}''),
      FunctionCall (js ''c2'') (js ''boom'') (js ''{}''),
      FunctionCall (js ''c3'') (js ''echo'') (js ''{''),
      FunctionCall (js ''c4'') (js ''echo'') (js ''{}'')]"

definition faulty_chunks :: "llm_chunk list" where
  "faulty_chunks =
     [Some \<lparr>ch_finish_reason = None, ch_content = None,
        ch_tool_calls = Some
          [\<lparr>tcd_index = Some 0, tcd_id = Some (js ''c1''),
            tcd_function = Some \<lparr>fd_name = Some (js ''nope''), fd_arguments = Some (js ''{}'')\<rparr>\<rparr>,
           \<lparr>tcd_index = Some 1, tcd_id = Some (js ''c2''),
            tcd_function = Some \<lparr>fd_name = Some (js ''boom''), fd_arguments = Some (js ''{}'')\<rparr>\<rparr>,
           \<lparr>tcd_index = Some 2, tcd_id = Some (js ''c3''),
            tcd_function = Some \<lparr>fd_name = Some (js ''echo''), fd_arguments = Some (js ''{'')\<rparr>\<rparr>,
           \<lparr>tcd_index = Some 3, tcd_id = Some (js ''c4''),
            tcd_function = Some \<lparr>fd_name = Some (js ''echo''), fd_arguments = Some (js ''{}'')\<rparr>\<rparr>]\<rparr>]"

definition faulty_env :: "nat env" where
  "faulty_env =
     \<lparr>toolRegistry =
        [boom_tool, echo_tool],
      openai_create = (\<lambda>msgs w.
        (Inr (Some (if w = 0 then \<lparr>lm_content = None, lm_tool_calls = Some faulty_calls\<rparr>
                    else \<lparr>lm_content = Some (js ''done''), lm_tool_calls = None\<rparr>)), w + 1)),
      stream_create = (\<lambda>p msgs w.
        ((if w = 0 then faulty_chunks
          else [Some \<lparr>ch_finish_reason = None, ch_content = Some (js ''done''),
                  ch_tool_calls = None\<rparr>],
          None), w + 1)),
      syntax_error_message = (\<lambda>s. js ''Unexpected end of JSON input''),
      type_error_message = (\<lambda>s. js ''Cannot set properties of undefined''),
      randomUUID = (\<lambda>w. (js ''id'', w)),
      now = (\<lambda>w. w)\<rparr>"

definition answer_chunks :: "llm_chunk list" where
  "answer_chunks =
     [Some \<lparr>ch_finish_reason = None, ch_content = Some (js ''4''), ch_tool_calls = None\<rparr>,
      Some \<lparr>ch_finish_reason = Some (js ''stop''), ch_content = None, ch_tool_calls = None\<rparr>]"

definition answer_env :: "nat env" where
  "answer_env =
     \<lparr>toolRegistry = [],
      openai_create = (\<lambda>msgs w.
        (Inr (Some \<lparr>lm_content = Some (js ''4''), lm_tool_calls = None\<rparr>), w + 1)),
      stream_create = (\<lambda>p msgs w.
        ((answer_chunks, None), w + 1)),
      syntax_error_message = (\<lambda>s. js ''Unexpected end of JSON input''),
      type_error_message = (\<lambda>s. js ''Cannot set properties of undefined''),
      randomUUID = (\<lambda>w. (js ''id'', w)),
      now = (\<lambda>w. w)\<rparr>"



text \<open>A session of three messages, the second of which has the marker.\<close>

definition row :: "string \<Rightarrow> role \<Rightarrow> jstring \<Rightarrow> dev_message" where
  "row i r text =
     \<lparr>dm_id = js i, dm_content = text, dm_structured_content = None, dm_widget_id = None,
      dm_role = r, dm_session_id = js ''s'', dm_user_id = js ''u''\<rparr>"





text \<open>
  A store with one session and one user message, and what the first transaction of the
  wrapper reads from it. In \<open>failing_env\<close> the stream delivers the content "par" and
  then fails.
\<close>

definition chat_store :: store where
  "chat_store =
     \<lparr>devMessage = [row ''m1'' User (js ''What is 2+2?'')],
      devSession = [\<lparr>ds_id = js ''s'', ds_name = js ''New conversation'', ds_user_id = js ''u'',
                     ds_updated_at = 7\<rparr>]\<rparr>"

definition chat_context :: session_context where
  "chat_context =
     \<lparr>userMsg = row ''m1'' User (js ''What is 2+2?''),
      previous = [row ''m1'' User (js ''What is 2+2?'')],
      sessionId = js ''s'',
      session = \<lparr>ds_id = js ''s'', ds_name = js ''New conversation'', ds_user_id = js ''u'',
                  ds_updated_at = 7\<rparr>\<rparr>"

definition failing_env :: "nat env" where
  "failing_env =
     \<lparr>toolRegistry = [],
      openai_create = (\<lambda>msgs w. (Inl (Error (js ''socket hang up'')), w + 1)),
      stream_create = (\<lambda>p msgs w.
        (([Some \<lparr>ch_finish_reason = None, ch_content = Some (js ''par''), ch_tool_calls = None\<rparr>],
          Some (Error (js ''socket hang up''))), w + 1)),
      syntax_error_message = (\<lambda>s. js ''Unexpected end of JSON input''),
      type_error_message = (\<lambda>s. js ''Cannot set properties of undefined''),
      randomUUID = (\<lambda>w. (js ''id'', w)),
      now = (\<lambda>w. w)\<rparr>"







text \<open>
  In \<open>todo_env\<close> the model first asks for the tool \<open>todos\<close> with the argument text
  \<open>args\<close>, saying \<open>text\<close> in the same round, and then answers "done"; as a completion
  response and as a stream. The tool returns a \<^verbatim>\<open>_meta\<close> with a path and a structured
  content. In \<open>custom_env\<close> the only tool call of the first round is not of type
  "function".
\<close>

definition todos_tool :: "nat tool_definition" where
  "todos_tool =
     \<lparr>td_name = js ''todos'',
      td_handler = (\<lambda>args uid w.
        (Inr \<lparr>tr_content = [js ''Here is your todo list''],
              tr_meta = Some [(js ''path'', JStr (js ''/todos''))],
              tr_structuredContent = Some [(js ''count'', JNum (js ''2''))],
              tr_widgetId = None\<rparr>, w))\<rparr>"

definition todo_env :: "jstring \<Rightarrow> jstring \<Rightarrow> nat env" where
  "todo_env args text =
     \<lparr>toolRegistry = [todos_tool],
      openai_create = (\<lambda>msgs w.
        (Inr (Some (if w = 0 then
                      \<lparr>lm_content = Some text,
                       lm_tool_calls = Some [FunctionCall (js ''c1'') (js ''todos'') args]\<rparr>
                    else \<lparr>lm_content = Some (js ''done''), lm_tool_calls = None\<rparr>)), w + 1)),
      stream_create = (\<lambda>p msgs w.
        ((if w = 0 then
            [Some \<lparr>ch_finish_reason = None, ch_content = Some text,
               ch_tool_calls = Some
                 [\<lparr>tcd_index = Some 0, tcd_id = Some (js ''c1''),
                   tcd_function = Some \<lparr>fd_name = Some (js ''todos''),
                                         fd_arguments = Some args\<rparr>\<rparr>]\<rparr>]
          else [Some \<lparr>ch_finish_reason = None, ch_content = Some (js ''done''),
                  ch_tool_calls = None\<rparr>],
          None), w + 1)),
      syntax_error_message = (\<lambda>s. js ''Unexpected end of JSON input''),
      type_error_message = (\<lambda>s. js ''Cannot set properties of undefined''),
      randomUUID = (\<lambda>w. (js ''id'', w)),
      now = (\<lambda>w. w)\<rparr>"

definition custom_env :: "nat env" where
  "custom_env =
     \<lparr>toolRegistry = [todos_tool],
      openai_create = (\<lambda>msgs w.
        (Inr (Some (if w = 0 then
                      \<lparr>lm_content = None, lm_tool_calls = Some [CustomCall (js ''c1'')]\<rparr>
                    else \<lparr>lm_content = Some (js ''done''), lm_tool_calls = None\<rparr>)), w + 1)),
      stream_create = (\<lambda>p msgs w.
        ((if w = 0 then
            [Some \<lparr>ch_finish_reason = Some (js ''tool_calls''), ch_content = None,
               ch_tool_calls = Some
                 [\<lparr>tcd_index = Some 0, tcd_id = Some (js ''c1''), tcd_function = None\<rparr>]\<rparr>]
          else [Some \<lparr>ch_finish_reason = None, ch_content = Some (js ''done''),
                  ch_tool_calls = None\<rparr>],
          None), w + 1)),
      syntax_error_message = (\<lambda>s. js ''Unexpected end of JSON input''),
      type_error_message = (\<lambda>s. js ''Cannot set properties of undefined''),
      randomUUID = (\<lambda>w. (js ''id'', w)),
      now = (\<lambda>w. w)\<rparr>"

section \<open>JSON: what is written is read back\<close>











text \<open>\<^verbatim>\<open>JSON.parse("")\<close> throws.\<close>

lemma json_parse_empty: "json_parse [] = None"
  by (simp add: json_parse_def)

section \<open>The state after a tool call\<close>


lemma push_yielded: "yielded (push m st) = yielded st"
  by (simp add: push_def)

lemma yield_fields:
  "currentMessages (yield c st) = currentMessages st"
  "finalMeta (yield c st) = finalMeta st"
  "finalStructuredContent (yield c st) = finalStructuredContent st"
  "finalWidgetId (yield c st) = finalWidgetId st"
  "world (yield c st) = world st"
  "toolResults (yield c st) = toolResults st"
  "yielded (yield c st) = yielded st @ [c]"
  by (simp_all add: yield_def)

lemma yield_all_fields:
  "currentMessages (yield_all cs st) = currentMessages st"
  "finalMeta (yield_all cs st) = finalMeta st"
  "finalStructuredContent (yield_all cs st) = finalStructuredContent st"
  "finalWidgetId (yield_all cs st) = finalWidgetId st"
  "world (yield_all cs st) = world st"
  "toolResults (yield_all cs st) = toolResults st"
  "yielded (yield_all cs st) = yielded st @ cs"
  by (simp_all add: yield_all_def)


lemma record_result_yielded: "yielded (record_result r w st) = yielded st"
  by (simp add: record_result_def)


lemma capture_sticky_yielded: "yielded (capture_sticky r st) = yielded st"
  by (simp add: capture_sticky_def Let_def split: option.splits)






section \<open>The iteration cap\<close>

declare completion_loop.simps [simp del] stream_loop.simps [simp del]

lemma js_append: "js a @ js b = js (a @ b)"
  by (simp add: js_def)





lemma stream_execute_tool_call_yielded:
  "\<exists>ys. yielded (stream_execute_tool_call env userId st tc) = yielded st @ ys \<and> \<not> has_done ys"
  by (simp add: stream_execute_tool_call_def push_yielded yield_fields capture_sticky_yielded
      record_result_yielded has_done_def
      split: option.splits sum.splits prod.splits)

lemma has_done_append: "has_done (xs @ ys) = (has_done xs \<or> has_done ys)"
  by (simp add: has_done_def)

lemma stream_execute_tool_calls_yielded:
  "\<exists>ys. yielded (foldl (stream_execute_tool_call env userId) st tcs) = yielded st @ ys
     \<and> \<not> has_done ys"
proof (induction tcs arbitrary: st)
  case Nil
  show ?case by (simp add: has_done_def)
next
  case (Cons tc tcs)
  obtain ys where ys: "yielded (stream_execute_tool_call env userId st tc) = yielded st @ ys"
    "\<not> has_done ys"
    using stream_execute_tool_call_yielded [of env userId st tc] by blast
  obtain zs where zs: "yielded (foldl (stream_execute_tool_call env userId)
      (stream_execute_tool_call env userId st tc) tcs)
      = yielded (stream_execute_tool_call env userId st tc) @ zs" "\<not> has_done zs"
    using Cons.IH [of "stream_execute_tool_call env userId st tc"] by blast
  show ?case
    using ys zs by (intro exI [of _ "ys @ zs"]) (simp add: has_done_append)
qed

lemma consume_chunk_yields: "\<not> has_done (snd (consume_chunk env c acc))"
  by (simp add: consume_chunk_def has_done_def Let_def split: option.splits sum.splits)

lemma consume_stream_yields: "\<not> has_done (snd (consume_stream env cs acc))"
proof (induction cs arbitrary: acc)
  case Nil
  show ?case by (simp add: has_done_def)
next
  case (Cons c cs)
  obtain r ys where c: "consume_chunk env c acc = (r, ys)"
    by (cases "consume_chunk env c acc")
  then have ys: "\<not> has_done ys"
    using consume_chunk_yields [of env c acc] by simp
  show ?case
  proof (cases r)
    case (Inl e)
    with c ys show ?thesis by simp
  next
    case (Inr acc')
    obtain r' ys' where s: "consume_stream env cs acc' = (r', ys')"
      by (cases "consume_stream env cs acc'")
    then have "\<not> has_done ys'"
      using Cons.IH [of acc'] by simp
    with c ys Inr s show ?thesis by (simp add: has_done_append)
  qed
qed

lemma stream_loop_cap:
  "\<forall>p msgs w. stream_calls_tools env (fst (stream_create env p msgs w)) \<Longrightarrow>
   iteration \<le> maxIterations \<Longrightarrow> \<not> has_done (yielded st) \<Longrightarrow>
     \<exists>st'. stream_loop env userId provider iteration st =
        (Some (Error (js ''Maximum tool call iterations exceeded'')), maxIterations, st')
        \<and> \<not> has_done (yielded st')"
proof (induction env userId provider iteration st rule: stream_loop.induct)
  case (1 env userId provider iteration st)
  show ?case
  proof (cases "iteration < maxIterations")
    case False
    with "1.prems" have "iteration = maxIterations" by simp
    then show ?thesis using "1.prems"(3) by (simp add: stream_loop.simps)
  next
    case True
    have c: "stream_calls_tools env (fst (stream_create env provider (currentMessages st) (world st)))"
      using "1.prems"(1) by blast
    obtain chunks failure w where
      r0: "stream_create env provider (currentMessages st) (world st) = ((chunks, failure), w)"
      by (cases "stream_create env provider (currentMessages st) (world st)") auto
    obtain ra ys where s0: "consume_stream env chunks empty_round = (ra, ys)"
      by (cases "consume_stream env chunks empty_round")
    from c r0 s0 obtain acc where
      r: "stream_create env provider (currentMessages st) (world st) = ((chunks, None), w)"
      and s: "consume_stream env chunks empty_round = (Inr acc, ys)"
      and t: "hasToolCalls acc" "toolCalls acc \<noteq> []"
      by (auto simp: stream_calls_tools_def split: sum.splits option.splits)
    have ys: "\<not> has_done ys"
      using consume_stream_yields [of env chunks empty_round] s by simp
    let ?st1 = "push (assistant_message (accumulatedContent acc) (toolCalls acc))
                  (yield (ToolCalls (toolCalls acc)) (yield_all ys (st\<lparr>world := w\<rparr>)))"
    obtain zs where zs: "yielded (foldl (stream_execute_tool_call env userId) ?st1 (toolCalls acc))
        = yielded ?st1 @ zs" "\<not> has_done zs"
      using stream_execute_tool_calls_yielded [of env userId ?st1 "toolCalls acc"] by blast
    have nd: "\<not> has_done (yielded (foldl (stream_execute_tool_call env userId) ?st1 (toolCalls acc)))"
      using zs ys "1.prems"(3)
      by (simp add: has_done_append push_yielded yield_fields yield_all_fields) (simp add: has_done_def)
    from True have le: "iteration + 1 \<le> maxIterations" by simp
    have t': "hasToolCalls acc \<and> toolCalls acc \<noteq> []" using t by simp
    from "1.IH" [OF True r [symmetric] refl s [symmetric] refl refl t' "1.prems"(1) le nd]
    show ?thesis
      using True r s t by (subst stream_loop.simps) simp
  qed
qed



lemma looping_env_stream_calls_tools:
  "\<forall>p msgs w'. stream_calls_tools looping_env (fst (stream_create looping_env p msgs w'))"
  by (simp add: looping_env_def stream_calls_tools_def consume_chunk_def merge_delta_def
      assign_at_def truthy_def or_empty_def empty_round_def js_def Let_def)


section \<open>A tool call never ends the run\<close>






section \<open>A round without tool calls\<close>

lemma completion_loop_answer:
  assumes "iteration < maxIterations"
    and "openai_create env (currentMessages st) (world st) = (Inr (Some message), w)"
    and "lm_tool_calls message = None \<or> lm_tool_calls message = Some []"
  shows "completion_loop env userId iteration st =
     (Inr (completion_result (or_empty (lm_content message)) st), iteration + 1, st\<lparr>world := w\<rparr>)"
  using assms by (subst completion_loop.simps) auto

lemma stream_loop_answer:
  assumes "iteration < maxIterations"
    and "stream_create env provider (currentMessages st) (world st) = ((chunks, None), w)"
    and "consume_stream env chunks empty_round = (Inr acc, ys)"
    and "toolCalls acc = []"
  shows "stream_loop env userId provider iteration st =
     (None, iteration + 1, finish (yield_all ys (st\<lparr>world := w\<rparr>)))"
  using assms by (subst stream_loop.simps) simp

lemma finish_fields:
  "currentMessages (finish st) = currentMessages st"
  "finalMeta (finish st) = finalMeta st"
  "finalStructuredContent (finish st) = finalStructuredContent st"
  "finalWidgetId (finish st) = finalWidgetId st"
  "world (finish st) = world st"
  "toolResults (finish st) = toolResults st"
  "yielded (finish st) =
     yielded st @ final_chunks (finalMeta st) (finalStructuredContent st) (finalWidgetId st)"
  by (simp_all add: finish_def final_chunks_def yield_fields)

lemma consume_chunk_no_tools:
  assumes "case c of None \<Rightarrow> True
           | Some ch \<Rightarrow> (case ch_tool_calls ch of None \<Rightarrow> True | Some ds \<Rightarrow> ds = [])"
  shows "\<exists>acc'. consume_chunk env c acc = (Inr acc', content_yields [c])
     \<and> toolCalls acc' = toolCalls acc
     \<and> accumulatedContent acc' = accumulatedContent acc @ stream_text [c]"
  using assms
  by (auto simp: consume_chunk_def content_yields_def stream_text_def Let_def truthy_def
      or_empty_def split: option.splits)

lemma content_yields_Cons: "content_yields (c # cs) = content_yields [c] @ content_yields cs"
  by (simp add: content_yields_def)

lemma stream_text_Cons: "stream_text (c # cs) = stream_text [c] @ stream_text cs"
  by (simp add: stream_text_def)

lemma consume_stream_no_tools:
  "no_tool_call_deltas chunks \<Longrightarrow>
   \<exists>acc'. consume_stream env chunks acc = (Inr acc', content_yields chunks)
     \<and> toolCalls acc' = toolCalls acc
     \<and> accumulatedContent acc' = accumulatedContent acc @ stream_text chunks"
proof (induction chunks arbitrary: acc)
  case Nil
  show ?case by (simp add: content_yields_def stream_text_def)
next
  case (Cons c cs)
  from Cons.prems have c: "case c of None \<Rightarrow> True
           | Some ch \<Rightarrow> (case ch_tool_calls ch of None \<Rightarrow> True | Some ds \<Rightarrow> ds = [])"
    and cs: "no_tool_call_deltas cs"
    by (simp_all add: no_tool_call_deltas_def)
  obtain acc1 where a1: "consume_chunk env c acc = (Inr acc1, content_yields [c])"
    "toolCalls acc1 = toolCalls acc"
    "accumulatedContent acc1 = accumulatedContent acc @ stream_text [c]"
    using consume_chunk_no_tools [OF c, of env acc] by blast
  obtain acc2 where a2: "consume_stream env cs acc1 = (Inr acc2, content_yields cs)"
    "toolCalls acc2 = toolCalls acc1"
    "accumulatedContent acc2 = accumulatedContent acc1 @ stream_text cs"
    using Cons.IH [OF cs, of acc1] by blast
  show ?case
    using a1 a2
    by (simp add: content_yields_Cons [of c cs] stream_text_Cons [of c cs])
qed

lemma streamed_content_yields: "streamed_content (content_yields chunks) = stream_text chunks"
proof (induction chunks)
  case Nil
  show ?case by (simp add: streamed_content_def content_yields_def stream_text_def)
next
  case (Cons c cs)
  have "streamed_content (content_yields [c]) = stream_text [c]"
    by (simp add: streamed_content_def content_yields_def stream_text_def truthy_def or_empty_def
        split: option.splits)
  with Cons show ?case
    by (simp add: content_yields_Cons [of c cs] stream_text_Cons [of c cs] streamed_content_def)
qed

text \<open>
  C4. When the response of a round carries no tool call (for the Streaming Driver: the
  stream ends without an error and none of its events carries a tool-call delta), the
  loop returns in that round: the request counter goes up by one, the history is
  unchanged, and the content of the round is the content of the result (for the Streaming
  Driver: it is yielded as content chunks, followed by the metadata chunk, if a sticky
  field is set, and the done chunk).
\<close>

theorem no_tool_calls_ends_run:
  "(iteration < maxIterations
      \<and> openai_create env (currentMessages st) (world st) = (Inr (Some message), w)
      \<and> (lm_tool_calls message = None \<or> lm_tool_calls message = Some []) \<longrightarrow>
    (\<exists>r st'. completion_loop env userId iteration st = (Inr r, iteration + 1, st')
       \<and> currentMessages st' = currentMessages st
       \<and> r_content r = or_empty (lm_content message)
       \<and> r_meta r = finalMeta st \<and> r_structuredContent r = finalStructuredContent st
       \<and> r_widgetId r = finalWidgetId st))
   \<and> (iteration < maxIterations
      \<and> stream_create env provider (currentMessages sst) (world sst) = ((chunks, None), w)
      \<and> no_tool_call_deltas chunks \<longrightarrow>
    (\<exists>sst'. stream_loop env userId provider iteration sst = (None, iteration + 1, sst')
       \<and> currentMessages sst' = currentMessages sst
       \<and> yielded sst' = yielded sst @ content_yields chunks
            @ final_chunks (finalMeta sst) (finalStructuredContent sst) (finalWidgetId sst)
       \<and> streamed_content (content_yields chunks) = stream_text chunks))"
proof (intro conjI impI)
  assume h: "iteration < maxIterations
      \<and> openai_create env (currentMessages st) (world st) = (Inr (Some message), w)
      \<and> (lm_tool_calls message = None \<or> lm_tool_calls message = Some [])"
  then have "completion_loop env userId iteration st =
     (Inr (completion_result (or_empty (lm_content message)) st), iteration + 1, st\<lparr>world := w\<rparr>)"
    using completion_loop_answer [of iteration env st message w userId] by blast
  then show "\<exists>r st'. completion_loop env userId iteration st = (Inr r, iteration + 1, st')
       \<and> currentMessages st' = currentMessages st
       \<and> r_content r = or_empty (lm_content message)
       \<and> r_meta r = finalMeta st \<and> r_structuredContent r = finalStructuredContent st
       \<and> r_widgetId r = finalWidgetId st"
    by (simp add: completion_result_def)
next
  assume h: "iteration < maxIterations
      \<and> stream_create env provider (currentMessages sst) (world sst) = ((chunks, None), w)
      \<and> no_tool_call_deltas chunks"
  then obtain acc where a: "consume_stream env chunks empty_round = (Inr acc, content_yields chunks)"
    "toolCalls acc = toolCalls empty_round"
    using consume_stream_no_tools [of chunks env empty_round] by blast
  then have "toolCalls acc = []" by (simp add: empty_round_def)
  with h a have "stream_loop env userId provider iteration sst =
     (None, iteration + 1, finish (yield_all (content_yields chunks) (sst\<lparr>world := w\<rparr>)))"
    using stream_loop_answer [of iteration env provider sst chunks w acc "content_yields chunks" userId]
    by blast
  then show "\<exists>sst'. stream_loop env userId provider iteration sst = (None, iteration + 1, sst')
       \<and> currentMessages sst' = currentMessages sst
       \<and> yielded sst' = yielded sst @ content_yields chunks
            @ final_chunks (finalMeta sst) (finalStructuredContent sst) (finalWidgetId sst)
       \<and> streamed_content (content_yields chunks) = stream_text chunks"
    by (simp add: finish_fields yield_all_fields streamed_content_yields)
qed

theorem no_tool_calls_ends_run_witness:
  "(0 < maxIterations
    \<and> openai_create answer_env (currentMessages (initial_state [plain_message User (js ''What is 2+2?'')] 0))
         (world (initial_state [plain_message User (js ''What is 2+2?'')] 0))
        = (Inr (Some \<lparr>lm_content = Some (js ''4''), lm_tool_calls = None\<rparr>), 1))
   \<and> getChatCompletion_run answer_env [plain_message User (js ''What is 2+2?'')] (js ''u'') 0
       = (Inr \<lparr>r_content = js ''4'', r_meta = None, r_structuredContent = None, r_widgetId = None\<rparr>,
          1, initial_state [plain_message User (js ''What is 2+2?'')] 1)
   \<and> (stream_create answer_env Grok
         (currentMessages (initial_stream_state [plain_message User (js ''What is 2+2?'')] 0))
         (world (initial_stream_state [plain_message User (js ''What is 2+2?'')] 0))
        = ((answer_chunks, None), 1)
      \<and> no_tool_call_deltas answer_chunks)
   \<and> (\<exists>sst'. streamChatCompletion answer_env [plain_message User (js ''What is 2+2?'')] (js ''u'') Grok 0
         = (None, 1, sst')
       \<and> currentMessages sst' = [plain_message User (js ''What is 2+2?'')]
       \<and> yielded sst' = [Content (js ''4''), Done None])"
proof -
  let ?q = "[plain_message User (js ''What is 2+2?'')]"
  have m: "0 < maxIterations" by (simp add: maxIterations_def)
  have h1: "openai_create answer_env (currentMessages (initial_state ?q 0)) (world (initial_state ?q 0))
        = (Inr (Some \<lparr>lm_content = Some (js ''4''), lm_tool_calls = None\<rparr>), 1)"
    by (simp add: answer_env_def initial_state_def)
  have h2: "stream_create answer_env Grok (currentMessages (initial_stream_state ?q 0))
         (world (initial_stream_state ?q 0)) = ((answer_chunks, None), 1)"
    by (simp add: answer_env_def initial_stream_state_def)
  have h3: "no_tool_call_deltas answer_chunks"
    by (simp add: no_tool_call_deltas_def answer_chunks_def)
  note t = no_tool_calls_ends_run [where env = answer_env and userId = "js ''u''"
      and iteration = 0 and st = "initial_state ?q 0" and sst = "initial_stream_state ?q 0"
      and message = "\<lparr>lm_content = Some (js ''4''), lm_tool_calls = None\<rparr>" and w = 1
      and provider = Grok and chunks = answer_chunks]
  from t [THEN conjunct1] m h1
  have c: "getChatCompletion_run answer_env ?q (js ''u'') 0
       = (Inr \<lparr>r_content = js ''4'', r_meta = None, r_structuredContent = None, r_widgetId = None\<rparr>,
          1, initial_state ?q 1)"
    by (auto simp: getChatCompletion_run_def initial_state_def or_empty_def
        completion_loop_answer completion_result_def)
  have h4: "content_yields answer_chunks = [Content (js ''4'')]"
    by (simp add: content_yields_def answer_chunks_def truthy_def or_empty_def js_def)
  have h5: "final_chunks None None None = [Done None]"
    by (simp add: final_chunks_def truthy_def present_def)
  from t [THEN conjunct2] m h2 h3
  obtain sst' where d: "stream_loop answer_env (js ''u'') Grok 0 (initial_stream_state ?q 0)
      = (None, 1, sst')" "currentMessages sst' = ?q" "yielded sst' = [Content (js ''4''), Done None]"
    by (auto simp: initial_stream_state_def h4 h5)
  have e: "\<exists>sst'. streamChatCompletion answer_env ?q (js ''u'') Grok 0 = (None, 1, sst')
       \<and> currentMessages sst' = ?q \<and> yielded sst' = [Content (js ''4''), Done None]"
    using d by (simp add: streamChatCompletion_def)
  show ?thesis
    by (intro conjI m h1 c h2 h3 e)
qed

section \<open>An empty argument text\<close>

text \<open>
  C10. For a call of a registered tool with an empty argument text, the Streaming Driver
  invokes the handler with the empty object and goes on with what the handler returns or
  throws; the Completion Driver parses the empty text, which fails, and pushes the tool
  message of the parse failure without invoking the handler.
\<close>

theorem empty_arguments:
  assumes "tc_arguments tc = []" and "find_tool env (tc_name tc) = Some tool"
  shows "stream_execute_tool_call env userId sst tc =
           (case td_handler tool (JObj []) userId (world sst) of
              (Inl e, w) \<Rightarrow>
                push (tool_message (error_content e) tc)
                  (yield (ToolResult (error_content e)) (sst\<lparr>world := w\<rparr>))
            | (Inr result, w) \<Rightarrow>
                push (tool_message (result_text result) tc)
                  (yield (ToolResult (result_text result))
                     (capture_sticky result (record_result result w sst))))
         \<and> execute_tool_call env userId st tc =
             push (tool_message (error_content (Error (syntax_error_message env []))) tc) st"
  using assms
  by (simp add: stream_execute_tool_call_def execute_tool_call_def json_parse_empty)

theorem empty_arguments_witness:
  "tc_arguments empty_args_call = []
   \<and> find_tool faulty_env (tc_name empty_args_call) = Some echo_tool
   \<and> stream_execute_tool_call faulty_env (js ''u'') (initial_stream_state [] 0) empty_args_call =
       \<lparr>currentMessages = [tool_message (js ''pong'') empty_args_call], finalMeta = None,
        finalStructuredContent = None, finalWidgetId = None, world = 0,
        toolResults = [\<lparr>tr_content = [js ''pong''], tr_meta = None,
                         tr_structuredContent = None, tr_widgetId = None\<rparr>],
        yielded = [ToolResult (js ''pong'')]\<rparr>
   \<and> execute_tool_call faulty_env (js ''u'') (initial_state [] 0) empty_args_call =
       \<lparr>currentMessages =
          [tool_message
             (stringify_error (js ''Error executing tool: Unexpected end of JSON input''))
             empty_args_call],
        finalMeta = None, finalStructuredContent = None, finalWidgetId = None, world = 0,
        toolResults = []\<rparr>"
proof -
  have a: "tc_arguments empty_args_call = []"
    by (simp add: empty_args_call_def)
  have b: "find_tool faulty_env (tc_name empty_args_call) = Some echo_tool"
    by (simp add: find_tool_def faulty_env_def empty_args_call_def boom_tool_def echo_tool_def
        js_def)
  have c: "js ''Error executing tool: '' @ js ''Unexpected end of JSON input''
      = js ''Error executing tool: Unexpected end of JSON input''"
    by (simp add: js_def)
  show ?thesis
    using empty_arguments [OF a b, of "js ''u''" "initial_stream_state [] 0" "initial_state [] 0"]
      a b c
    by (simp add: echo_tool_def faulty_env_def initial_stream_state_def initial_state_def
        push_def yield_def capture_sticky_def record_result_def result_text_def item_text_def
        error_content_def thrown_message_def js_def)
qed

section \<open>Delta reassembly\<close>








section \<open>The history reset marker\<close>








section \<open>Sticky fields\<close>

lemma first_present_snoc:
  "first_present (xs @ [x]) = (case first_present xs of None \<Rightarrow> x | Some v \<Rightarrow> Some v)"
proof (induction xs rule: first_present.induct)
  case 1
  show ?case by (cases x) simp_all
qed simp_all

lemma sticky_capture:
  "sticky_fields_ok st \<Longrightarrow> sticky_fields_ok (capture_sticky r (record_result r w st))"
  by (auto simp: sticky_fields_ok_def capture_sticky_def record_result_def Let_def
      first_present_snoc split: option.splits)

lemma sticky_push: "sticky_fields_ok (push m st) = sticky_fields_ok st"
  by (simp add: sticky_fields_ok_def push_def)

lemma sticky_yield: "sticky_fields_ok (yield c st) = sticky_fields_ok st"
  by (simp add: sticky_fields_ok_def yield_def)

lemma sticky_yield_all: "sticky_fields_ok (yield_all cs st) = sticky_fields_ok st"
  by (simp add: sticky_fields_ok_def yield_all_def)

lemma sticky_world: "sticky_fields_ok (st\<lparr>world := w\<rparr>) = sticky_fields_ok st"
  by (simp add: sticky_fields_ok_def)

lemma sticky_finish: "sticky_fields_ok (finish st) = sticky_fields_ok st"
  by (simp add: sticky_fields_ok_def finish_fields)


lemma sticky_stream_execute_tool_call:
  "sticky_fields_ok st \<Longrightarrow> sticky_fields_ok (stream_execute_tool_call env userId st tc)"
  by (simp add: stream_execute_tool_call_def sticky_push sticky_yield sticky_world sticky_capture
      split: option.splits sum.splits prod.splits)


lemma sticky_stream_execute_tool_calls:
  "sticky_fields_ok st \<Longrightarrow> sticky_fields_ok (foldl (stream_execute_tool_call env userId) st tcs)"
  by (induction tcs arbitrary: st) (simp_all add: sticky_stream_execute_tool_call)


lemma plain_chunks_append: "plain_chunks (xs @ ys) = (plain_chunks xs \<and> plain_chunks ys)"
  by (simp add: plain_chunks_def)

lemma plain_consume_chunk: "plain_chunks (snd (consume_chunk env c acc))"
  by (simp add: consume_chunk_def plain_chunks_def Let_def split: option.splits sum.splits)

lemma plain_consume_stream: "plain_chunks (snd (consume_stream env cs acc))"
proof (induction cs arbitrary: acc)
  case Nil
  show ?case by (simp add: plain_chunks_def)
next
  case (Cons c cs)
  obtain r ys where c: "consume_chunk env c acc = (r, ys)"
    by (cases "consume_chunk env c acc")
  then have ys: "plain_chunks ys"
    using plain_consume_chunk [of env c acc] by simp
  show ?case
  proof (cases r)
    case (Inl e)
    with c ys show ?thesis by simp
  next
    case (Inr acc')
    obtain r' ys' where s: "consume_stream env cs acc' = (r', ys')"
      by (cases "consume_stream env cs acc'")
    then have "plain_chunks ys'"
      using Cons.IH [of acc'] by simp
    with c ys Inr s show ?thesis by (simp add: plain_chunks_append)
  qed
qed

lemma plain_stream_execute_tool_call:
  "\<exists>ys. yielded (stream_execute_tool_call env userId st tc) = yielded st @ ys \<and> plain_chunks ys"
  by (simp add: stream_execute_tool_call_def push_yielded yield_fields capture_sticky_yielded
      record_result_yielded plain_chunks_def
      split: option.splits sum.splits prod.splits)

lemma plain_stream_execute_tool_calls:
  "\<exists>ys. yielded (foldl (stream_execute_tool_call env userId) st tcs) = yielded st @ ys
     \<and> plain_chunks ys"
proof (induction tcs arbitrary: st)
  case Nil
  show ?case by (simp add: plain_chunks_def)
next
  case (Cons tc tcs)
  obtain ys where ys: "yielded (stream_execute_tool_call env userId st tc) = yielded st @ ys"
    "plain_chunks ys"
    using plain_stream_execute_tool_call [of env userId st tc] by blast
  obtain zs where zs: "yielded (foldl (stream_execute_tool_call env userId)
      (stream_execute_tool_call env userId st tc) tcs)
      = yielded (stream_execute_tool_call env userId st tc) @ zs" "plain_chunks zs"
    using Cons.IH [of "stream_execute_tool_call env userId st tc"] by blast
  show ?case
    using ys zs by (intro exI [of _ "ys @ zs"]) (simp add: plain_chunks_append)
qed

lemma stream_loop_outcome:
  "sticky_fields_ok st \<Longrightarrow> stream_loop env userId provider iteration st = (out, n, st') \<Longrightarrow>
   sticky_fields_ok st'
   \<and> (\<exists>ys. plain_chunks ys
        \<and> yielded st' = yielded st @ ys @
            (case out of
               Some e \<Rightarrow> []
             | None \<Rightarrow> final_chunks (finalMeta st') (finalStructuredContent st') (finalWidgetId st')))"
proof (induction env userId provider iteration st rule: stream_loop.induct)
  case (1 env userId provider iteration st)
  show ?case
  proof (cases "iteration < maxIterations")
    case False
    with "1.prems" show ?thesis by (auto simp: stream_loop.simps plain_chunks_def)
  next
    case True
    obtain chunks failure w where c:
      "stream_create env provider (currentMessages st) (world st) = ((chunks, failure), w)"
      by (cases "stream_create env provider (currentMessages st) (world st)") auto
    obtain r ys where s: "consume_stream env chunks empty_round = (r, ys)"
      by (cases "consume_stream env chunks empty_round")
    have ys: "plain_chunks ys"
      using plain_consume_stream [of env chunks empty_round] s by simp
    show ?thesis
    proof (cases "stream_calls_tools env (chunks, failure)")
      case False
      show ?thesis
      proof (cases "failure = None \<and> (\<exists>acc. r = Inr acc)")
        case True
        then obtain acc where a: "failure = None" "r = Inr acc" by blast
        with False s have "\<not> (hasToolCalls acc \<and> toolCalls acc \<noteq> [])"
          by (simp add: stream_calls_tools_def)
        with \<open>iteration < maxIterations\<close> c s a "1.prems"(2)
        have e: "out = None" "st' = finish (yield_all ys (st\<lparr>world := w\<rparr>))"
          by (subst (asm) stream_loop.simps, simp)+
        show ?thesis
          using "1.prems"(1) ys unfolding e
          by (simp add: sticky_finish sticky_yield_all sticky_world finish_fields yield_all_fields)
      next
        case f: False
        with \<open>iteration < maxIterations\<close> c s "1.prems"(2)
        have e: "out \<noteq> None" "st' = yield_all ys (st\<lparr>world := w\<rparr>)"
          by (subst (asm) stream_loop.simps, auto split: sum.splits option.splits)+
        show ?thesis
          using "1.prems"(1) ys e
          by (auto simp: sticky_yield_all sticky_world yield_all_fields)
      qed
    next
      case ct: True
      then obtain acc where a: "failure = None" "r = Inr acc" "hasToolCalls acc \<and> toolCalls acc \<noteq> []"
        using s by (auto simp: stream_calls_tools_def split: sum.splits option.splits)
      let ?st0 = "push (assistant_message (accumulatedContent acc) (toolCalls acc))
                    (yield (ToolCalls (toolCalls acc)) (yield_all ys (st\<lparr>world := w\<rparr>)))"
      let ?st1 = "foldl (stream_execute_tool_call env userId) ?st0 (toolCalls acc)"
      have s1: "sticky_fields_ok ?st1"
        using "1.prems"(1)
        by (simp add: sticky_stream_execute_tool_calls sticky_push sticky_yield sticky_yield_all
            sticky_world)
      have l: "stream_loop env userId provider (iteration + 1) ?st1 = (out, n, st')"
        using "1.prems"(2) True c s a by (subst (asm) stream_loop.simps) simp
      obtain zs where zs: "yielded ?st1 = yielded ?st0 @ zs" "plain_chunks zs"
        using plain_stream_execute_tool_calls [of env userId ?st0 "toolCalls acc"] by blast
      from "1.IH" [OF True c [symmetric] refl _ refl _ a(3) s1 l] s a
      obtain us where us: "sticky_fields_ok st'" "plain_chunks us"
        "yielded st' = yielded ?st1 @ us @
            (case out of
               Some e \<Rightarrow> []
             | None \<Rightarrow> final_chunks (finalMeta st') (finalStructuredContent st') (finalWidgetId st'))"
        by auto
      have "plain_chunks (ys @ [ToolCalls (toolCalls acc)] @ zs @ us)"
        using ys zs(2) us(2) by (simp add: plain_chunks_append) (simp add: plain_chunks_def)
      moreover have "yielded st' = yielded st @ (ys @ [ToolCalls (toolCalls acc)] @ zs @ us) @
            (case out of
               Some e \<Rightarrow> []
             | None \<Rightarrow> final_chunks (finalMeta st') (finalStructuredContent st') (finalWidgetId st'))"
        using us(3) zs(1) by (simp add: push_yielded yield_fields yield_all_fields)
      ultimately show ?thesis
        using us(1) by blast
    qed
  qed
qed


lemma sticky_initial_stream: "sticky_fields_ok (initial_stream_state messages w)"
  by (simp add: sticky_fields_ok_def initial_stream_state_def)




section \<open>The session wrapper\<close>

lemma streamed_content_append:
  "streamed_content (xs @ ys) = streamed_content xs @ streamed_content ys"
  by (simp add: streamed_content_def)

lemma on_chunk_plain:
  assumes "case c of Metadata m sc wid \<Rightarrow> False | Done i \<Rightarrow> False | _ \<Rightarrow> True"
  shows "on_chunk env userId ctx wst c =
     wst\<lparr>w_out := w_out wst @ [c], w_content := w_content wst @ streamed_content [c]\<rparr>"
  using assms by (cases c) (simp_all add: on_chunk_def Let_def streamed_content_def)

lemma on_chunks_plain:
  "plain_chunks cs \<Longrightarrow>
   foldl (on_chunk env userId ctx) wst cs =
     wst\<lparr>w_out := w_out wst @ cs, w_content := w_content wst @ streamed_content cs\<rparr>"
proof (induction cs arbitrary: wst)
  case Nil
  show ?case by (simp add: streamed_content_def)
next
  case (Cons c cs)
  from Cons.prems have c: "case c of Metadata m sc wid \<Rightarrow> False | Done i \<Rightarrow> False | _ \<Rightarrow> True"
    and cs: "plain_chunks cs"
    by (simp_all add: plain_chunks_def)
  show ?case
    using Cons.IH [OF cs] on_chunk_plain [OF c, of env userId ctx wst]
      streamed_content_append [of "[c]" cs]
    by simp
qed

lemma plain_not_done: "plain_chunks cs \<Longrightarrow> \<not> has_done cs"
  by (induction cs) (auto simp: plain_chunks_def has_done_def split: stream_chunk.splits)

lemma streamChatCompletion_outcome:
  assumes "streamChatCompletion env messages userId provider w = (out, n, st)"
  shows "sticky_fields_ok st
   \<and> (\<exists>ys. plain_chunks ys
        \<and> yielded st = ys @
            (case out of
               Some e \<Rightarrow> []
             | None \<Rightarrow> final_chunks (finalMeta st) (finalStructuredContent st) (finalWidgetId st)))
   \<and> (case out of Some e \<Rightarrow> (\<exists>m. e = Error m) | None \<Rightarrow> True)"
proof -
  obtain out0 where l:
    "stream_loop env userId provider 0 (initial_stream_state messages w) = (out0, n, st)"
    and o: "out = map_option stream_failure out0"
    using assms
    by (cases "stream_loop env userId provider 0 (initial_stream_state messages w)")
       (auto simp: streamChatCompletion_def split: option.splits)
  from stream_loop_outcome [OF sticky_initial_stream l] o
  show ?thesis
    by (cases out0) (auto simp: initial_stream_state_def stream_failure_def)
qed

lemma truthy_sticky_widget:
  "sticky_fields_ok st \<Longrightarrow> (if truthy (finalWidgetId st) then finalWidgetId st else None)
     = finalWidgetId st"
  by (auto simp: sticky_fields_ok_def meta_path_def truthy_def
      split: option.splits json.splits if_splits)

lemma generate_session_name_messages:
  "devMessage (fst (generate_session_name env userId ctx text db w)) = devMessage db"
  by (simp add: generate_session_name_def split: prod.splits sum.splits)

lemma on_chunk_metadata:
  "on_chunk env userId ctx wst (Metadata m sc wid) =
     wst\<lparr>w_out := w_out wst @ [Metadata m sc wid], w_finalMeta := m,
          w_finalStructuredContent := sc, w_finalWidgetId := wid\<rparr>"
  by (simp add: on_chunk_def Let_def)

lemma on_chunk_done:
  "\<exists>db' w'. on_chunk env userId ctx wst (Done i) =
      wst\<lparr>w_out := w_out wst @ [Done i, Done (Some (fst (randomUUID env (w_world wst))))],
           w_store := db', w_world := w'\<rparr>
      \<and> devMessage db' = devMessage (w_store wst) @
           [assistant_row (fst (randomUUID env (w_world wst))) (w_content wst)
              (w_finalStructuredContent wst) (w_finalMeta wst)
              (if truthy (w_finalWidgetId wst) then w_finalWidgetId wst else None)
              (sessionId ctx) userId]"
proof -
  obtain uuid w1 where u: "randomUUID env (w_world wst) = (uuid, w1)"
    by (cases "randomUUID env (w_world wst)")
  let ?wst = "wst\<lparr>w_out := w_out wst @ [Done i]\<rparr>"
  let ?row = "assistant_row uuid (w_content wst) (w_finalStructuredContent wst) (w_finalMeta wst)
              (if truthy (w_finalWidgetId wst) then w_finalWidgetId wst else None)
              (sessionId ctx) userId"
  let ?db = "touch_session (sessionId ctx) (now env w1)
               ((w_store wst)\<lparr>devMessage := devMessage (w_store wst) @ [?row]\<rparr>)"
  have s: "save_assistant_message env userId ctx ?wst = (uuid, ?db, w1)"
    using u by (simp add: save_assistant_message_def assistant_row_def)
  obtain db' w' where g: "generate_session_name env userId ctx (w_content wst) ?db w1 = (db', w')"
    by (cases "generate_session_name env userId ctx (w_content wst) ?db w1")
  have "devMessage db' = devMessage ?db"
    using generate_session_name_messages [of env userId ctx "w_content wst" ?db w1] g by simp
  then have d: "devMessage db' = devMessage (w_store wst) @ [?row]"
    by (simp add: touch_session_def)
  have "on_chunk env userId ctx wst (Done i) =
      wst\<lparr>w_out := w_out wst @ [Done i, Done (Some uuid)], w_store := db', w_world := w'\<rparr>"
    using s g by (simp add: on_chunk_def Let_def)
  with d u show ?thesis by auto
qed

lemma on_chunks_final:
  assumes "w_finalMeta wst = None" and "w_finalStructuredContent wst = None"
    and "w_finalWidgetId wst = None"
    and "(if truthy wid then wid else None) = wid"
  shows "\<exists>db' w'. foldl (on_chunk env userId ctx) wst (final_chunks m sc wid) =
      wst\<lparr>w_out := w_out wst @ final_chunks m sc wid
                 @ [Done (Some (fst (randomUUID env (w_world wst))))],
           w_finalMeta := m, w_finalStructuredContent := sc, w_finalWidgetId := wid,
           w_store := db', w_world := w'\<rparr>
      \<and> devMessage db' = devMessage (w_store wst) @
           [assistant_row (fst (randomUUID env (w_world wst))) (w_content wst) sc m wid
              (sessionId ctx) userId]"
proof (cases "present m \<or> present sc \<or> truthy wid")
  case True
  let ?wst = "wst\<lparr>w_out := w_out wst @ [Metadata m sc wid], w_finalMeta := m,
          w_finalStructuredContent := sc, w_finalWidgetId := wid\<rparr>"
  obtain db' w' where d: "on_chunk env userId ctx ?wst (Done None) =
      ?wst\<lparr>w_out := w_out ?wst @ [Done None, Done (Some (fst (randomUUID env (w_world ?wst))))],
           w_store := db', w_world := w'\<rparr>"
    "devMessage db' = devMessage (w_store ?wst) @
           [assistant_row (fst (randomUUID env (w_world ?wst))) (w_content ?wst)
              (w_finalStructuredContent ?wst) (w_finalMeta ?wst)
              (if truthy (w_finalWidgetId ?wst) then w_finalWidgetId ?wst else None)
              (sessionId ctx) userId]"
    using on_chunk_done [of env userId ctx ?wst None] by blast
  have "foldl (on_chunk env userId ctx) wst (final_chunks m sc wid)
      = on_chunk env userId ctx ?wst (Done None)"
    using True by (simp add: final_chunks_def on_chunk_metadata)
  then show ?thesis
    using d True assms(4)
    by (intro exI [of _ db'] exI [of _ w']) (simp add: final_chunks_def cong: if_cong)
next
  case False
  then have n: "m = None" "sc = None" "wid = None"
    using assms(4) by (auto simp: present_def split: option.splits if_splits)
  obtain db' w' where d: "on_chunk env userId ctx wst (Done None) =
      wst\<lparr>w_out := w_out wst @ [Done None, Done (Some (fst (randomUUID env (w_world wst))))],
           w_store := db', w_world := w'\<rparr>"
    "devMessage db' = devMessage (w_store wst) @
           [assistant_row (fst (randomUUID env (w_world wst))) (w_content wst)
              (w_finalStructuredContent wst) (w_finalMeta wst)
              (if truthy (w_finalWidgetId wst) then w_finalWidgetId wst else None)
              (sessionId ctx) userId]"
    using on_chunk_done [of env userId ctx wst None] by blast
  have f: "final_chunks None None None = [Done None]"
    by (simp add: final_chunks_def present_def truthy_def)
  have e: "wst\<lparr>w_finalMeta := None, w_finalStructuredContent := None, w_finalWidgetId := None\<rparr>
      = wst"
    using assms(1-3) by simp
  show ?thesis
    unfolding n f using d assms(1-3) e
    by (intro exI [of _ db'] exI [of _ w']) (simp add: truthy_def cong: if_cong)
qed

lemma load_context_store:
  assumes "load_context env userId messageId db w = Inr (ctx, db1)"
  shows "db1 = touch_session (sessionId ctx) (now env w) db" and "devMessage db1 = devMessage db"
  using assms by (auto simp: load_context_def touch_session_def split: option.splits)

lemma streamed_content_final: "streamed_content (final_chunks m sc wid) = []"
  by (simp add: streamed_content_def final_chunks_def)

lemma streamUserMessageById_run:
  assumes "load_context env userId messageId db w = Inr (ctx, db1)"
    and "streamChatCompletion env (map to_chat_message (previous ctx)) userId Grok w = (out, n, st)"
  shows "streamUserMessageById env userId messageId db w =
     (let wst = foldl (on_chunk env userId ctx) (wrapper_start db1 (world st)) (yielded st)
      in (w_out wst, out, w_store wst, w_world wst))"
  using assms by (simp add: streamUserMessageById_def wrapper_start_def)

text \<open>
  C7. When the first transaction succeeds and the run of the Streaming Driver ends with
  its done chunk, the wrapper has added exactly one row to the message table: an assistant
  message whose content is the concatenation of the texts of the run's content chunks in
  the order of their emission, whose structured content is null when the run has neither a
  final \<^verbatim>\<open>structuredContent\<close> nor a final \<^verbatim>\<open>_meta\<close>, and otherwise the object with
  the entries of the final \<^verbatim>\<open>structuredContent\<close> and the final \<^verbatim>\<open>_meta\<close> under the
  key "_meta", and whose widget id is the run's final widget id. The consumer got the
  driver's chunks and, last, a done chunk with the id of that row.
\<close>

theorem done_persists_one_message:
  assumes "load_context env userId messageId db w = Inr (ctx, db1)"
    and "streamChatCompletion env (map to_chat_message (previous ctx)) userId Grok w = (None, n, st)"
  shows "\<exists>out db' w'.
     streamUserMessageById env userId messageId db w = (out, None, db', w')
     \<and> devMessage db' = devMessage db @
          [\<lparr>dm_id = fst (randomUUID env (world st)),
            dm_content = streamed_content (yielded st),
            dm_structured_content =
              (case (finalStructuredContent st, finalMeta st) of
                 (None, None) \<Rightarrow> None
               | (Some sc, None) \<Rightarrow> Some (JObj sc)
               | (None, Some m) \<Rightarrow> Some (JObj [(js ''_meta'', JObj m)])
               | (Some sc, Some m) \<Rightarrow> Some (JObj (AList.update (js ''_meta'') (JObj m) sc))),
            dm_widget_id = finalWidgetId st,
            dm_role = Assistant, dm_session_id = sessionId ctx, dm_user_id = userId\<rparr>]
     \<and> out = yielded st @ [Done (Some (fst (randomUUID env (world st))))]
     \<and> streamed_content out = streamed_content (yielded st)"
proof -
  let ?final = "final_chunks (finalMeta st) (finalStructuredContent st) (finalWidgetId st)"
  from streamChatCompletion_outcome [OF assms(2)]
  obtain ys where ok: "sticky_fields_ok st" and ys: "plain_chunks ys" "yielded st = ys @ ?final"
    by auto
  let ?wst1 = "(wrapper_start db1 (world st))\<lparr>w_out := ys, w_content := streamed_content ys\<rparr>"
  have f1: "foldl (on_chunk env userId ctx) (wrapper_start db1 (world st)) ys = ?wst1"
    using on_chunks_plain [OF ys(1), of env userId ctx "wrapper_start db1 (world st)"]
    by (simp add: wrapper_start_def)
  let ?uuid = "fst (randomUUID env (world st))"
  obtain db' w' where f2: "foldl (on_chunk env userId ctx) ?wst1 ?final =
      ?wst1\<lparr>w_out := w_out ?wst1 @ ?final @ [Done (Some (fst (randomUUID env (w_world ?wst1))))],
           w_finalMeta := finalMeta st, w_finalStructuredContent := finalStructuredContent st,
           w_finalWidgetId := finalWidgetId st, w_store := db', w_world := w'\<rparr>"
    and d: "devMessage db' = devMessage (w_store ?wst1) @
           [assistant_row (fst (randomUUID env (w_world ?wst1))) (w_content ?wst1)
              (finalStructuredContent st) (finalMeta st) (finalWidgetId st) (sessionId ctx) userId]"
    using on_chunks_final [of ?wst1 "finalWidgetId st" env userId ctx "finalMeta st"
        "finalStructuredContent st"] truthy_sticky_widget [OF ok]
    by (auto simp: wrapper_start_def)
  have c: "streamed_content (yielded st) = streamed_content ys"
    by (simp add: ys(2) streamed_content_append streamed_content_final)
  have r: "streamUserMessageById env userId messageId db w =
      (yielded st @ [Done (Some ?uuid)], None, db', w')"
    using streamUserMessageById_run [OF assms] f1 f2
    by (simp add: ys(2) Let_def wrapper_start_def)
  have m: "devMessage db' = devMessage db @
          [assistant_row ?uuid (streamed_content (yielded st)) (finalStructuredContent st)
             (finalMeta st) (finalWidgetId st) (sessionId ctx) userId]"
    using d load_context_store(2) [OF assms(1)] c by (simp add: wrapper_start_def)
  have s: "streamed_content (yielded st @ [Done (Some ?uuid)]) = streamed_content (yielded st)"
    by (simp add: streamed_content_append) (simp add: streamed_content_def)
  have v: "assistant_row ?uuid (streamed_content (yielded st)) (finalStructuredContent st)
             (finalMeta st) (finalWidgetId st) (sessionId ctx) userId =
          \<lparr>dm_id = ?uuid,
            dm_content = streamed_content (yielded st),
            dm_structured_content =
              (case (finalStructuredContent st, finalMeta st) of
                 (None, None) \<Rightarrow> None
               | (Some sc, None) \<Rightarrow> Some (JObj sc)
               | (None, Some m) \<Rightarrow> Some (JObj [(js ''_meta'', JObj m)])
               | (Some sc, Some m) \<Rightarrow> Some (JObj (AList.update (js ''_meta'') (JObj m) sc))),
            dm_widget_id = finalWidgetId st,
            dm_role = Assistant, dm_session_id = sessionId ctx, dm_user_id = userId\<rparr>"
    by (simp add: assistant_row_def combinedStructuredContent_def present_def
        split: option.splits)
  show ?thesis
    by (intro exI [of _ "yielded st @ [Done (Some ?uuid)]"] exI [of _ db'] exI [of _ w'] conjI
        r m [unfolded v] s refl)
qed

text \<open>
  C8. When the run of the Streaming Driver throws (the error of the iteration cap and an
  error of the model's transport both come out of the driver as a thrown \<^verbatim>\<open>Error\<close>),
  the wrapper throws the same error after it forwarded the chunks yielded so far, none of
  which is a done chunk; the message table is as it was (the store is the one the first
  transaction left, which touched \<^verbatim>\<open>updated_at\<close> of the session and nothing else), and
  the subscription emits the chunks and then the error event.
\<close>

theorem failed_run_persists_nothing:
  assumes "load_context env userId messageId db w = Inr (ctx, db1)"
    and "streamChatCompletion env (map to_chat_message (previous ctx)) userId Grok w
           = (Some e, n, st)"
  shows "streamUserMessageById env userId messageId db w = (yielded st, Some e, db1, world st)
     \<and> db1 = touch_session (sessionId ctx) (now env w) db
     \<and> devMessage db1 = devMessage db
     \<and> \<not> has_done (yielded st)
     \<and> streamMessage env userId messageId db w =
         (map Next (yielded st) @ [ErrorEvent e], db1, world st)"
proof -
  from streamChatCompletion_outcome [OF assms(2)]
  obtain m where ys: "plain_chunks (yielded st)" and e: "e = Error m"
    by auto
  have f: "foldl (on_chunk env userId ctx) (wrapper_start db1 (world st)) (yielded st) =
      (wrapper_start db1 (world st))\<lparr>w_out := yielded st,
         w_content := streamed_content (yielded st)\<rparr>"
    using on_chunks_plain [OF ys, of env userId ctx "wrapper_start db1 (world st)"]
    by (simp add: wrapper_start_def)
  have r: "streamUserMessageById env userId messageId db w = (yielded st, Some e, db1, world st)"
    using streamUserMessageById_run [OF assms] f by (simp add: Let_def wrapper_start_def)
  then have "streamMessage env userId messageId db w =
         (map Next (yielded st) @ [ErrorEvent e], db1, world st)"
    by (simp add: streamMessage_def e)
  with r load_context_store [OF assms(1)] plain_not_done [OF ys] show ?thesis
    by simp
qed

lemma chat_store_load:
  "load_context env (js ''u'') (js ''m1'') chat_store w =
     Inr (chat_context, touch_session (js ''s'') (now env w) chat_store)"
  by (simp add: load_context_def chat_store_def chat_context_def row_def previousMessages_def
      ignore_marker_def js_def)

lemma chat_context_history:
  "map to_chat_message (previous chat_context) = [plain_message User (js ''What is 2+2?'')]"
  by (simp add: chat_context_def row_def to_chat_message_def plain_message_def)

theorem done_persists_one_message_witness:
  "load_context (todo_env (js ''{}'') (js ''Hi'')) (js ''u'') (js ''m1'') chat_store 0 =
     Inr (chat_context,
          touch_session (js ''s'') (now (todo_env (js ''{}'') (js ''Hi'')) 0) chat_store)
   \<and> (case streamChatCompletion (todo_env (js ''{}'') (js ''Hi''))
             (map to_chat_message (previous chat_context)) (js ''u'') Grok 0 of
        (failure, n, st) \<Rightarrow>
          failure = None
          \<and> yielded st =
              [Content (js ''Hi''),
               ToolCalls [\<lparr>tc_id = js ''c1'', tc_name = js ''todos'', tc_arguments = js ''{}''\<rparr>],
               ToolResult (js ''Here is your todo list''),
               Content (js ''done''),
               Metadata (Some [(js ''path'', JStr (js ''/todos''))])
                 (Some [(js ''count'', JNum (js ''2''))]) (Some (js ''/todos'')),
               Done None])
   \<and> (\<exists>db' w'.
         streamUserMessageById (todo_env (js ''{}'') (js ''Hi'')) (js ''u'') (js ''m1'') chat_store 0 =
           ([Content (js ''Hi''),
             ToolCalls [\<lparr>tc_id = js ''c1'', tc_name = js ''todos'', tc_arguments = js ''{}''\<rparr>],
             ToolResult (js ''Here is your todo list''),
             Content (js ''done''),
             Metadata (Some [(js ''path'', JStr (js ''/todos''))])
               (Some [(js ''count'', JNum (js ''2''))]) (Some (js ''/todos'')),
             Done None,
             Done (Some (js ''id''))], None, db', w')
       \<and> devMessage db' = devMessage chat_store @
            [\<lparr>dm_id = js ''id'', dm_content = js ''Hidone'',
              dm_structured_content =
                Some (JObj [(js ''count'', JNum (js ''2'')),
                            (js ''_meta'', JObj [(js ''path'', JStr (js ''/todos''))])]),
              dm_widget_id = Some (js ''/todos''),
              dm_role = Assistant, dm_session_id = js ''s'', dm_user_id = js ''u''\<rparr>])"
proof -
  let ?env = "todo_env (js ''{}'') (js ''Hi'')"
  let ?ys = "[Content (js ''Hi''),
               ToolCalls [\<lparr>tc_id = js ''c1'', tc_name = js ''todos'', tc_arguments = js ''{}''\<rparr>],
               ToolResult (js ''Here is your todo list''),
               Content (js ''done''),
               Metadata (Some [(js ''path'', JStr (js ''/todos''))])
                 (Some [(js ''count'', JNum (js ''2''))]) (Some (js ''/todos'')),
               Done None]"
  have l: "load_context ?env (js ''u'') (js ''m1'') chat_store 0 =
     Inr (chat_context, touch_session (js ''s'') (now ?env 0) chat_store)"
    by (rule chat_store_load)
  have k: "case streamChatCompletion ?env (map to_chat_message (previous chat_context))
                 (js ''u'') Grok 0 of
        (failure, n, st) \<Rightarrow>
          failure = None \<and> yielded st = ?ys
          \<and> finalMeta st = Some [(js ''path'', JStr (js ''/todos''))]
          \<and> finalStructuredContent st = Some [(js ''count'', JNum (js ''2''))]
          \<and> finalWidgetId st = Some (js ''/todos'')"
    by code_simp
  obtain failure n st where r0: "streamChatCompletion ?env
      (map to_chat_message (previous chat_context)) (js ''u'') Grok 0 = (failure, n, st)"
    by (cases "streamChatCompletion ?env (map to_chat_message (previous chat_context))
                 (js ''u'') Grok 0")
  from k r0 have f: "failure = None" and y: "yielded st = ?ys"
    and fm: "finalMeta st = Some [(js ''path'', JStr (js ''/todos''))]"
    and fs: "finalStructuredContent st = Some [(js ''count'', JNum (js ''2''))]"
    and fw: "finalWidgetId st = Some (js ''/todos'')"
    by simp_all
  have r: "streamChatCompletion ?env (map to_chat_message (previous chat_context)) (js ''u'') Grok 0
      = (None, n, st)"
    using r0 f by simp
  have k2: "case streamChatCompletion ?env (map to_chat_message (previous chat_context))
                 (js ''u'') Grok 0 of
        (failure, n, st) \<Rightarrow> failure = None \<and> yielded st = ?ys"
    using r y by simp
  have u: "\<And>v. fst (randomUUID ?env v) = js ''id''"
    by (simp add: todo_env_def)
  have s: "streamed_content ?ys = js ''Hidone''"
    by (simp add: streamed_content_def js_def)
  have c: "sessionId chat_context = js ''s''"
    by (simp add: chat_context_def)
  have a: "AList.update (js ''_meta'') (JObj [(js ''path'', JStr (js ''/todos''))])
             [(js ''count'', JNum (js ''2''))]
      = [(js ''count'', JNum (js ''2'')),
         (js ''_meta'', JObj [(js ''path'', JStr (js ''/todos''))])]"
    by (simp add: js_def)
  from done_persists_one_message [OF l r]
  have "\<exists>out db' w'.
     streamUserMessageById ?env (js ''u'') (js ''m1'') chat_store 0 = (out, None, db', w')
     \<and> devMessage db' = devMessage chat_store @
            [\<lparr>dm_id = js ''id'', dm_content = js ''Hidone'',
              dm_structured_content =
                Some (JObj [(js ''count'', JNum (js ''2'')),
                            (js ''_meta'', JObj [(js ''path'', JStr (js ''/todos''))])]),
              dm_widget_id = Some (js ''/todos''),
              dm_role = Assistant, dm_session_id = js ''s'', dm_user_id = js ''u''\<rparr>]
     \<and> out = ?ys @ [Done (Some (js ''id''))]
     \<and> streamed_content out = js ''Hidone''"
    by (simp only: y fm fs fw u s c prod.case option.case a)
  then obtain out db' w' where e0:
    "streamUserMessageById ?env (js ''u'') (js ''m1'') chat_store 0 = (out, None, db', w')
     \<and> devMessage db' = devMessage chat_store @
            [\<lparr>dm_id = js ''id'', dm_content = js ''Hidone'',
              dm_structured_content =
                Some (JObj [(js ''count'', JNum (js ''2'')),
                            (js ''_meta'', JObj [(js ''path'', JStr (js ''/todos''))])]),
              dm_widget_id = Some (js ''/todos''),
              dm_role = Assistant, dm_session_id = js ''s'', dm_user_id = js ''u''\<rparr>]
     \<and> out = ?ys @ [Done (Some (js ''id''))]
     \<and> streamed_content out = js ''Hidone''"
    by (elim exE)
  note e = e0 [THEN conjunct1] e0 [THEN conjunct2, THEN conjunct1]
    e0 [THEN conjunct2, THEN conjunct2, THEN conjunct1]
  have e1: "streamUserMessageById ?env (js ''u'') (js ''m1'') chat_store 0 =
           ([Content (js ''Hi''),
             ToolCalls [\<lparr>tc_id = js ''c1'', tc_name = js ''todos'', tc_arguments = js ''{}''\<rparr>],
             ToolResult (js ''Here is your todo list''),
             Content (js ''done''),
             Metadata (Some [(js ''path'', JStr (js ''/todos''))])
               (Some [(js ''count'', JNum (js ''2''))]) (Some (js ''/todos'')),
             Done None,
             Done (Some (js ''id''))], None, db', w')"
    using e(1) e(3) by simp
  show ?thesis
    by (intro conjI l k2 exI [of _ db'] exI [of _ w'] e1 e(2))
qed

theorem failed_run_persists_nothing_witness:
  "load_context failing_env (js ''u'') (js ''m1'') chat_store 0 =
     Inr (chat_context, touch_session (js ''s'') (now failing_env 0) chat_store)
   \<and> streamChatCompletion failing_env (map to_chat_message (previous chat_context)) (js ''u'') Grok 0
       = (Some (Error (js ''Failed to stream chat completion: socket hang up'')), 1,
          \<lparr>currentMessages = [plain_message User (js ''What is 2+2?'')], finalMeta = None,
           finalStructuredContent = None, finalWidgetId = None, world = 1, toolResults = [],
           yielded = [Content (js ''par'')]\<rparr>)
   \<and> streamUserMessageById failing_env (js ''u'') (js ''m1'') chat_store 0 =
       ([Content (js ''par'')],
        Some (Error (js ''Failed to stream chat completion: socket hang up'')),
        touch_session (js ''s'') (now failing_env 0) chat_store, 1)
   \<and> devMessage (touch_session (js ''s'') (now failing_env 0) chat_store) = devMessage chat_store
   \<and> streamMessage failing_env (js ''u'') (js ''m1'') chat_store 0 =
       ([Next (Content (js ''par'')),
         ErrorEvent (Error (js ''Failed to stream chat completion: socket hang up''))],
        touch_session (js ''s'') (now failing_env 0) chat_store, 1)
   \<and> (\<exists>out db1 w'. streamUserMessageById looping_env (js ''u'') (js ''m1'') chat_store 0 =
         (out,
          Some (Error (js ''Failed to stream chat completion: Maximum tool call iterations exceeded'')),
          db1, w')
       \<and> devMessage db1 = devMessage chat_store \<and> \<not> has_done out)"
proof -
  let ?st = "\<lparr>currentMessages = [plain_message User (js ''What is 2+2?'')], finalMeta = None,
           finalStructuredContent = None, finalWidgetId = None, world = 1::nat, toolResults = [],
           yielded = [Content (js ''par'')]\<rparr>"
  have l: "load_context failing_env (js ''u'') (js ''m1'') chat_store 0 =
     Inr (chat_context, touch_session (js ''s'') (now failing_env 0) chat_store)"
    by (rule chat_store_load)
  have r: "streamChatCompletion failing_env (map to_chat_message (previous chat_context)) (js ''u'') Grok 0
       = (Some (Error (js ''Failed to stream chat completion: socket hang up'')), 1, ?st)"
    unfolding chat_context_history
    by (simp add: streamChatCompletion_def stream_loop.simps maxIterations_def
        initial_stream_state_def failing_env_def consume_chunk_def stream_failure_def
        thrown_message_def
        empty_round_def truthy_def or_empty_def yield_def yield_all_def
        Let_def js_def)
  note t = failed_run_persists_nothing [OF l r]
  have a: "streamUserMessageById failing_env (js ''u'') (js ''m1'') chat_store 0 =
       ([Content (js ''par'')],
        Some (Error (js ''Failed to stream chat completion: socket hang up'')),
        touch_session (js ''s'') (now failing_env 0) chat_store, 1)"
    using t [THEN conjunct1] by simp
  have b: "devMessage (touch_session (js ''s'') (now failing_env 0) chat_store)
      = devMessage chat_store"
    using t [THEN conjunct2, THEN conjunct2, THEN conjunct1] .
  have c: "streamMessage failing_env (js ''u'') (js ''m1'') chat_store 0 =
       ([Next (Content (js ''par'')),
         ErrorEvent (Error (js ''Failed to stream chat completion: socket hang up''))],
        touch_session (js ''s'') (now failing_env 0) chat_store, 1)"
    using t [THEN conjunct2, THEN conjunct2, THEN conjunct2, THEN conjunct2] by simp
  have l2: "load_context looping_env (js ''u'') (js ''m1'') chat_store 0 =
     Inr (chat_context, touch_session (js ''s'') (now looping_env 0) chat_store)"
    by (rule chat_store_load)
  obtain st where "stream_loop looping_env (js ''u'') Grok 0
        (initial_stream_state (map to_chat_message (previous chat_context)) 0)
      = (Some (Error (js ''Maximum tool call iterations exceeded'')), maxIterations, st)"
    using stream_loop_cap [OF looping_env_stream_calls_tools, of 0
        "initial_stream_state (map to_chat_message (previous chat_context)) 0" "js ''u''" Grok]
    by (auto simp: initial_stream_state_def has_done_def)
  then have r2: "streamChatCompletion looping_env (map to_chat_message (previous chat_context))
        (js ''u'') Grok 0
      = (Some (Error (js ''Failed to stream chat completion: Maximum tool call iterations exceeded'')),
         maxIterations, st)"
    by (simp add: streamChatCompletion_def stream_failure_def thrown_message_def js_def)
  note t2 = failed_run_persists_nothing [OF l2 r2]
  have d: "\<exists>out db1 w'. streamUserMessageById looping_env (js ''u'') (js ''m1'') chat_store 0 =
         (out,
          Some (Error (js ''Failed to stream chat completion: Maximum tool call iterations exceeded'')),
          db1, w')
       \<and> devMessage db1 = devMessage chat_store \<and> \<not> has_done out"
    using t2 [THEN conjunct1] t2 [THEN conjunct2, THEN conjunct2, THEN conjunct1]
      t2 [THEN conjunct2, THEN conjunct2, THEN conjunct2, THEN conjunct1]
    by blast
  show ?thesis
    by (intro conjI l r a b c d)
qed

section \<open>The two drivers agree\<close>


















lemma custom_env_spells_arguments:
  "spells_arguments (fst (openai_create custom_env msgs w))"
  by (simp add: custom_env_def spells_arguments_def calls_of_def)

lemma custom_env_silent_calls:
  "silent_calls (fst (openai_create custom_env msgs w))"
  by (simp add: custom_env_def silent_calls_def calls_of_def or_empty_def)





end
